theory Spec2Isabelle
  imports Main "HOL-Library.Word" "HOL-Library.Signed_Division"
begin

unbundle bit_operations_syntax

section \<open>The syntax tree of the shading-language compiler (liboslcomp/ast.cpp)\<close>

text \<open>
  This theory embeds the node constructors of \<^verbatim>\<open>src/liboslcomp/ast.cpp\<close>: every
  constructor performs its semantic analysis against the compiler instance it is handed
  (symbol table, diagnostic sink, source cursor). The compiler instance is an explicit
  state record; a constructor returns the node it built together with the state it left
  behind. \<^verbatim>\<open>OSL_ASSERT\<close> aborts the process and a failed \<^verbatim>\<open>dynamic_cast\<close> is
  dereferenced: both are results of type \<open>Fault\<close>.
\<close>

subsection \<open>Machine integers\<close>

text \<open>
  The C++ type \<^verbatim>\<open>int\<close> is a 32-bit two's-complement integer. Addition, subtraction
  and multiplication wrap around. Where C++ leaves an operation undefined (a shift count
  outside \<open>0..31\<close>, the quotient \<open>INT_MIN / -1\<close>) the model follows what the usual
  two's-complement machines compute (count taken modulo 32, quotient wrapped); no
  theorem below speaks about those inputs.
\<close>

type_synonym int32 = "32 word"

definition c_div :: "int32 \<Rightarrow> int32 \<Rightarrow> int32" where
  "c_div lv rv = word_of_int (sint lv sdiv sint rv)"

definition c_mod :: "int32 \<Rightarrow> int32 \<Rightarrow> int32" where
  "c_mod lv rv = word_of_int (sint lv smod sint rv)"

definition c_shl :: "int32 \<Rightarrow> int32 \<Rightarrow> int32" where
  "c_shl lv rv = push_bit (unat (rv AND 31)) lv"

definition c_shr :: "int32 \<Rightarrow> int32 \<Rightarrow> int32" where
  "c_shr lv rv = signed_drop_bit (unat (rv AND 31)) lv"

subsection \<open>Floating point as a parameter\<close>

text \<open>
  The C++ type \<^verbatim>\<open>float\<close> is kept abstract: a type variable \<open>'f\<close> and a record of
  the operations that \<^verbatim>\<open>ASTbinary_expression::make\<close> applies to it. \<open>fl_nonzero\<close> is
  the conversion of a float to \<^verbatim>\<open>bool\<close> (\<^verbatim>\<open>rv ? ... : ...\<close>), \<open>fl_zero\<close> is the
  constant \<^verbatim>\<open>0.0f\<close>. \<^verbatim>\<open>lv > rv\<close> is \<open>fl_lt rv lv\<close> and \<^verbatim>\<open>lv >= rv\<close> is
  \<open>fl_le rv lv\<close>.
\<close>

record 'f FloatOps =
  fl_mul :: "'f \<Rightarrow> 'f \<Rightarrow> 'f"
  fl_div :: "'f \<Rightarrow> 'f \<Rightarrow> 'f"
  fl_add :: "'f \<Rightarrow> 'f \<Rightarrow> 'f"
  fl_sub :: "'f \<Rightarrow> 'f \<Rightarrow> 'f"
  fl_eq :: "'f \<Rightarrow> 'f \<Rightarrow> bool"
  fl_lt :: "'f \<Rightarrow> 'f \<Rightarrow> bool"
  fl_le :: "'f \<Rightarrow> 'f \<Rightarrow> bool"
  fl_nonzero :: "'f \<Rightarrow> bool"
  fl_zero :: "'f"
  fl_of_int :: "int32 \<Rightarrow> 'f"

subsection \<open>Type descriptors\<close>

text \<open>
  Modelled from the spec: the type-descriptor library (class \<^verbatim>\<open>TypeSpec\<close>, declared in
  \<^verbatim>\<open>osl_pvt.h\<close>) is not among the sources at hand. The spec lists its queries
  (is-array, is-structure, is-matrix, is-triple, is-color, is-closure, is-unknown,
  element-type, array-length). A descriptor is a simple base type, an array length
  (\<open>0\<close>: not an array, negative: unsized array), a structure id (\<open>0\<close>: not a
  structure) and a closure flag. The default descriptor \<^verbatim>\<open>TypeSpec()\<close> is the unknown
  type.
\<close>

datatype BASETYPE =
  TD_UNKNOWN | TD_NONE | TD_INT | TD_FLOAT | TD_STRING | TD_COLOR | TD_POINT | TD_VECTOR
  | TD_NORMAL | TD_MATRIX

record TypeSpec =
  ts_simple :: BASETYPE
  ts_arraylen :: int
  ts_structure :: nat
  ts_closure :: bool

definition TypeSpec_simple :: "BASETYPE \<Rightarrow> TypeSpec" where
  "TypeSpec_simple b = \<lparr>ts_simple = b, ts_arraylen = 0, ts_structure = 0, ts_closure = False\<rparr>"

definition TypeSpec_default :: TypeSpec where
  "TypeSpec_default = TypeSpec_simple TD_UNKNOWN"

definition TypeInt :: TypeSpec where "TypeInt = TypeSpec_simple TD_INT"
definition TypeFloat :: TypeSpec where "TypeFloat = TypeSpec_simple TD_FLOAT"
definition TypeString :: TypeSpec where "TypeString = TypeSpec_simple TD_STRING"

definition is_array :: "TypeSpec \<Rightarrow> bool" where
  "is_array t = (ts_arraylen t \<noteq> 0)"

definition is_unsized_array :: "TypeSpec \<Rightarrow> bool" where
  "is_unsized_array t = (ts_arraylen t < 0)"

definition arraylength :: "TypeSpec \<Rightarrow> int" where
  "arraylength t = ts_arraylen t"

definition make_array :: "int \<Rightarrow> TypeSpec \<Rightarrow> TypeSpec" where
  "make_array n t = t\<lparr>ts_arraylen := n\<rparr>"

definition elementtype :: "TypeSpec \<Rightarrow> TypeSpec" where
  "elementtype t = make_array 0 t"

definition is_closure :: "TypeSpec \<Rightarrow> bool" where
  "is_closure t = (ts_closure t \<and> \<not> is_array t)"

definition is_structure :: "TypeSpec \<Rightarrow> bool" where
  "is_structure t = (ts_structure t > 0 \<and> \<not> is_array t)"

definition is_structure_array :: "TypeSpec \<Rightarrow> bool" where
  "is_structure_array t = (ts_structure t > 0 \<and> is_array t)"

definition is_simple :: "BASETYPE \<Rightarrow> TypeSpec \<Rightarrow> bool" where
  "is_simple b t = (ts_simple t = b \<and> ts_arraylen t = 0 \<and> ts_structure t = 0 \<and> \<not> ts_closure t)"

definition is_int :: "TypeSpec \<Rightarrow> bool" where "is_int t = is_simple TD_INT t"
definition is_float :: "TypeSpec \<Rightarrow> bool" where "is_float t = is_simple TD_FLOAT t"
definition is_color :: "TypeSpec \<Rightarrow> bool" where "is_color t = is_simple TD_COLOR t"
definition is_matrix :: "TypeSpec \<Rightarrow> bool" where "is_matrix t = is_simple TD_MATRIX t"

definition is_vectriple :: "TypeSpec \<Rightarrow> bool" where
  "is_vectriple t = (is_simple TD_POINT t \<or> is_simple TD_VECTOR t \<or> is_simple TD_NORMAL t)"

definition is_triple :: "TypeSpec \<Rightarrow> bool" where
  "is_triple t = (is_color t \<or> is_vectriple t)"

definition is_unknown :: "TypeSpec \<Rightarrow> bool" where
  "is_unknown t = (t = TypeSpec_default)"

subsection \<open>Symbols, the symbol table, diagnostics and the compiler instance\<close>

datatype SymType =
  SymTypeParam | SymTypeOutputParam | SymTypeLocal | SymTypeTemp | SymTypeGlobal
  | SymTypeConst | SymTypeFunction | SymTypeType

text \<open>
  A symbol points back to the declaration node that made it. The constructors below read
  through that pointer the declaration's source file and line, whether it has statements
  and whether it is a built-in; \<open>DeclRef\<close> is what the pointer shows.
\<close>

record DeclRef =
  decl_sourcefile :: string
  decl_sourceline :: int
  decl_statements :: bool
  decl_is_builtin :: bool

text \<open>
  Modelled from the spec: the symbol record (classes \<^verbatim>\<open>Symbol\<close> and
  \<^verbatim>\<open>FunctionSymbol\<close>, declared in \<^verbatim>\<open>symtab.h\<close>) is not among the sources at hand.
  It has the fields the constructors read and write: name, type, kind, scope, the owning
  declaration, whether it is read-only, and for functions the signature encoding and the
  link to the previous head of the polymorphic chain.
\<close>

datatype Symbol = Symbol
  (sym_name: string)
  (sym_typespec: TypeSpec)
  (sym_symtype: SymType)
  (sym_scope: int)
  (sym_node: "DeclRef option")
  (sym_readonly: bool)
  (sym_argcodes: string)
  (sym_nextpoly: "Symbol option")

text \<open>
  Modelled from the spec: the symbol table is an external collaborator with
  \<^verbatim>\<open>find(name)\<close>, \<^verbatim>\<open>clash(name)\<close> (the first symbol of that name regardless of
  kind), \<^verbatim>\<open>insert(symbol)\<close> and \<^verbatim>\<open>scopeid()\<close>. Its entries are kept newest first;
  an inserted symbol gets the current scope.
\<close>

record SymbolTable =
  st_entries :: "Symbol list"
  st_scopeid :: int

definition symtab_find :: "SymbolTable \<Rightarrow> string \<Rightarrow> Symbol option" where
  "symtab_find tab nm = List.find (\<lambda>s. sym_name s = nm) (st_entries tab)"

definition symtab_clash :: "SymbolTable \<Rightarrow> string \<Rightarrow> Symbol option" where
  "symtab_clash tab nm = List.find (\<lambda>s. sym_name s = nm) (st_entries tab)"

definition with_scope :: "int \<Rightarrow> Symbol \<Rightarrow> Symbol" where
  "with_scope sc s = (case s of Symbol n t k _ d r a p \<Rightarrow> Symbol n t k sc d r a p)"

definition symtab_insert :: "Symbol \<Rightarrow> SymbolTable \<Rightarrow> SymbolTable" where
  "symtab_insert s tab = tab\<lparr>st_entries := with_scope (st_scopeid tab) s # st_entries tab\<rparr>"

datatype Diag = Error string int string | Warning string int string

datatype Fault = AssertFailed string | NullDeref

record Compiler =
  filename :: string
  lineno :: int
  symtab :: SymbolTable
  diags :: "Diag list"

definition report :: "Diag \<Rightarrow> Compiler \<Rightarrow> Compiler" where
  "report d cmp = cmp\<lparr>diags := diags cmp @ [d]\<rparr>"

subsection \<open>Nodes\<close>

datatype NodeType =
  unknown_node | shader_declaration_node | function_declaration_node
  | variable_declaration_node | compound_initializer_node | variable_ref_node
  | preincdec_node | postincdec_node | index_node | structselect_node
  | conditional_statement_node | loop_statement_node | loopmod_statement_node
  | return_statement_node | binary_expression_node | unary_expression_node
  | assign_expression_node | ternary_expression_node | comma_operator_node
  | typecast_expression_node | type_constructor_node | function_call_node
  | literal_node

datatype Operator =
  Nothing | Decr | Incr | Assign | Mul | Div | Add | Sub | Mod | Equal | NotEqual
  | Greater | Less | GreaterEqual | LessEqual | BitAnd | BitOr | Xor | Compl
  | And | Or | Not | ShiftLeft | ShiftRight

datatype LoopType = LoopWhile | LoopDo | LoopFor

text \<open>
  \<^verbatim>\<open>m_op\<close> is an \<^verbatim>\<open>int\<close> whose meaning depends on the node kind: nothing (0), an
  operator, a shader type or a loop type.
\<close>

datatype OpCode = NoOp | OperatorOp Operator | ShaderTypeOp int | LoopTypeOp LoopType

text \<open>
  The base class \<^verbatim>\<open>ASTNode\<close> with the members of its subclasses in \<open>m_data\<close>.
  \<open>m_children\<close> holds a possibly null reference per slot, \<open>m_next\<close> is the owning link
  to the next sibling.
\<close>

datatype 'f ASTNode = ASTNode
  (nodetype: NodeType)
  (m_sourcefile: string)
  (m_sourceline: int)
  (m_op: OpCode)
  (m_children: "'f ASTNode option list")
  (m_next: "'f ASTNode option")
  (m_typespec: TypeSpec)
  (m_is_lvalue: bool)
  (m_data: "'f NodeData")
and 'f NodeData =
    NoData
  | ShaderDeclData (m_shadername: string)
  | FuncDeclData (m_name: string) (m_sym: "Symbol option") (m_is_builtin: bool)
  | VarDeclData (m_name: string) (m_sym: "Symbol option")
      (m_isparam: bool) (m_isoutput: bool) (m_ismetadata: bool) (m_initlist: bool)
  | VarRefData (m_name: string) (m_sym: "Symbol option")
  | StructselectData (m_field: string) (m_structid: int) (m_fieldid: int)
      (m_fieldname: string) (m_fieldsym: "Symbol option") (m_compindex: "'f ASTNode option")
  | OperatorData (m_function_overload: "Symbol option")
  | IntLit (m_i: int32)
  | FloatLit (m_f: 'f)
  | StringLit (m_s: string)

text \<open>The base-class constructors: location from the compiler's cursor, the children adopted in order.\<close>

definition ASTNode_base ::
  "NodeType \<Rightarrow> Compiler \<Rightarrow> OpCode \<Rightarrow> 'f ASTNode option list \<Rightarrow> 'f NodeData \<Rightarrow> 'f ASTNode" where
  "ASTNode_base nt cmp op kids d =
     ASTNode nt (filename cmp) (lineno cmp) op kids None TypeSpec_default False d"

definition child :: "'f ASTNode \<Rightarrow> nat \<Rightarrow> 'f ASTNode option" where
  "child n i = (if i < length (m_children n) then m_children n ! i else None)"

definition nchildren :: "'f ASTNode \<Rightarrow> nat" where
  "nchildren n = length (m_children n)"

definition set_typespec :: "TypeSpec \<Rightarrow> 'f ASTNode \<Rightarrow> 'f ASTNode" where
  "set_typespec t n = (case n of ASTNode nt f l op k nx _ lv d \<Rightarrow> ASTNode nt f l op k nx t lv d)"

definition set_op :: "OpCode \<Rightarrow> 'f ASTNode \<Rightarrow> 'f ASTNode" where
  "set_op op n = (case n of ASTNode nt f l _ k nx t lv d \<Rightarrow> ASTNode nt f l op k nx t lv d)"

definition set_children :: "'f ASTNode option list \<Rightarrow> 'f ASTNode \<Rightarrow> 'f ASTNode" where
  "set_children k n = (case n of ASTNode nt f l op _ nx t lv d \<Rightarrow> ASTNode nt f l op k nx t lv d)"

definition set_next :: "'f ASTNode option \<Rightarrow> 'f ASTNode \<Rightarrow> 'f ASTNode" where
  "set_next nx n = (case n of ASTNode nt f l op k _ t lv d \<Rightarrow> ASTNode nt f l op k nx t lv d)"

definition set_is_lvalue :: "bool \<Rightarrow> 'f ASTNode \<Rightarrow> 'f ASTNode" where
  "set_is_lvalue lv n = (case n of ASTNode nt f l op k nx t _ d \<Rightarrow> ASTNode nt f l op k nx t lv d)"

definition set_data :: "'f NodeData \<Rightarrow> 'f ASTNode \<Rightarrow> 'f ASTNode" where
  "set_data d n = (case n of ASTNode nt f l op k nx t lv _ \<Rightarrow> ASTNode nt f l op k nx t lv d)"

definition set_sourceline :: "int \<Rightarrow> 'f ASTNode \<Rightarrow> 'f ASTNode" where
  "set_sourceline l n = (case n of ASTNode nt f _ op k nx t lv d \<Rightarrow> ASTNode nt f l op k nx t lv d)"

text \<open>\<^verbatim>\<open>errorfmt\<close> and \<^verbatim>\<open>warningfmt\<close> of a node report at the node's own location.\<close>

definition errorfmt :: "'f ASTNode \<Rightarrow> string \<Rightarrow> Compiler \<Rightarrow> Compiler" where
  "errorfmt n msg cmp = report (Error (m_sourcefile n) (m_sourceline n) msg) cmp"

definition warningfmt :: "'f ASTNode \<Rightarrow> string \<Rightarrow> Compiler \<Rightarrow> Compiler" where
  "warningfmt n msg cmp = report (Warning (m_sourcefile n) (m_sourceline n) msg) cmp"

subsection \<open>Literals\<close>

text \<open>
  Modelled from the spec: class \<^verbatim>\<open>ASTliteral\<close> is declared in \<^verbatim>\<open>ast.h\<close>, which is
  not among the sources at hand. A literal node carries an int, a float or a string and
  has the matching type; \<^verbatim>\<open>intval()\<close> and \<^verbatim>\<open>floatval()\<close> read it (the latter
  converts an int literal).
\<close>

definition ASTliteral_int :: "Compiler \<Rightarrow> int32 \<Rightarrow> 'f ASTNode" where
  "ASTliteral_int cmp i = set_typespec TypeInt (ASTNode_base literal_node cmp NoOp [] (IntLit i))"

definition ASTliteral_float :: "Compiler \<Rightarrow> 'f \<Rightarrow> 'f ASTNode" where
  "ASTliteral_float cmp f = set_typespec TypeFloat (ASTNode_base literal_node cmp NoOp [] (FloatLit f))"

definition ASTliteral_string :: "Compiler \<Rightarrow> string \<Rightarrow> 'f ASTNode" where
  "ASTliteral_string cmp s = set_typespec TypeString (ASTNode_base literal_node cmp NoOp [] (StringLit s))"

definition intval :: "'f ASTNode \<Rightarrow> int32 option" where
  "intval n = (case m_data n of IntLit i \<Rightarrow> Some i | _ \<Rightarrow> None)"

definition floatval :: "'f FloatOps \<Rightarrow> 'f ASTNode \<Rightarrow> 'f option" where
  "floatval fo n = (case m_data n of
       IntLit i \<Rightarrow> (if is_int (m_typespec n) then Some (fl_of_int fo i) else None)
     | FloatLit f \<Rightarrow> (if is_int (m_typespec n) then None else Some f)
     | _ \<Rightarrow> None)"

subsection \<open>Binary expressions and constant folding\<close>

text \<open>\<^verbatim>\<open>ASTbinary_expression::opword\<close>; the default case is a failed assertion.\<close>

definition binary_opword :: "OpCode \<Rightarrow> Fault + string" where
  "binary_opword op = (case op of
       OperatorOp Mul \<Rightarrow> Inr ''mul''
     | OperatorOp Div \<Rightarrow> Inr ''div''
     | OperatorOp Add \<Rightarrow> Inr ''add''
     | OperatorOp Sub \<Rightarrow> Inr ''sub''
     | OperatorOp Mod \<Rightarrow> Inr ''mod''
     | OperatorOp Equal \<Rightarrow> Inr ''eq''
     | OperatorOp NotEqual \<Rightarrow> Inr ''neq''
     | OperatorOp Greater \<Rightarrow> Inr ''gt''
     | OperatorOp GreaterEqual \<Rightarrow> Inr ''ge''
     | OperatorOp Less \<Rightarrow> Inr ''lt''
     | OperatorOp LessEqual \<Rightarrow> Inr ''le''
     | OperatorOp BitAnd \<Rightarrow> Inr ''bitand''
     | OperatorOp BitOr \<Rightarrow> Inr ''bitor''
     | OperatorOp Xor \<Rightarrow> Inr ''xor''
     | OperatorOp And \<Rightarrow> Inr ''and''
     | OperatorOp Or \<Rightarrow> Inr ''or''
     | OperatorOp ShiftLeft \<Rightarrow> Inr ''shl''
     | OperatorOp ShiftRight \<Rightarrow> Inr ''shr''
     | _ \<Rightarrow> Inl (AssertFailed ''unknown binary expression''))"

text \<open>
  The plain constructor \<^verbatim>\<open>ASTbinary_expression::ASTbinary_expression\<close>: a node with
  the two operands as children; for every operator but \<^verbatim>\<open>&&\<close> and \<^verbatim>\<open>||\<close> it looks
  up a user overload named \<^verbatim>\<open>__operator__<opword>__\<close>.
\<close>

definition ASTbinary_expression ::
  "Compiler \<Rightarrow> Operator \<Rightarrow> 'f ASTNode \<Rightarrow> 'f ASTNode \<Rightarrow> Fault + 'f ASTNode" where
  "ASTbinary_expression cmp op left right =
     (let n = ASTNode_base binary_expression_node cmp (OperatorOp op) [Some left, Some right]
                (OperatorData None)
      in if op \<noteq> And \<and> op \<noteq> Or then
           (case binary_opword (m_op n) of
              Inl e \<Rightarrow> Inl e
            | Inr w \<Rightarrow>
               (let funcname = ''__operator__'' @ w @ ''__'';
                    sym = symtab_find (symtab cmp) funcname
                in case sym of
                     Some s \<Rightarrow> if sym_symtype s = SymTypeFunction
                               then Inr (set_data (OperatorData (Some s)) n) else Inr n
                   | None \<Rightarrow> Inr n))
         else Inr n)"

text \<open>
  The two \<^verbatim>\<open>switch\<close> statements of \<^verbatim>\<open>make\<close>. Every integer case is
  \<^verbatim>\<open>cf = new ASTliteral(comp, <int>)\<close>, so the integer switch yields the value; the float
  switch yields the node, since its comparisons build int literals. \<open>None\<close> is the
  \<^verbatim>\<open>default\<close> case (\<^verbatim>\<open>cf\<close> stays null).
\<close>

definition fold_int :: "Operator \<Rightarrow> int32 \<Rightarrow> int32 \<Rightarrow> int32 option" where
  "fold_int op lv rv = (case op of
       Mul \<Rightarrow> Some (lv * rv)
     | Div \<Rightarrow> Some (if rv \<noteq> 0 then c_div lv rv else 0)
     | Add \<Rightarrow> Some (lv + rv)
     | Sub \<Rightarrow> Some (lv - rv)
     | Mod \<Rightarrow> Some (if rv \<noteq> 0 then c_mod lv rv else 0)
     | Equal \<Rightarrow> Some (if lv = rv then 1 else 0)
     | NotEqual \<Rightarrow> Some (if lv \<noteq> rv then 1 else 0)
     | Greater \<Rightarrow> Some (if rv <s lv then 1 else 0)
     | Less \<Rightarrow> Some (if lv <s rv then 1 else 0)
     | GreaterEqual \<Rightarrow> Some (if rv \<le>s lv then 1 else 0)
     | LessEqual \<Rightarrow> Some (if lv \<le>s rv then 1 else 0)
     | BitAnd \<Rightarrow> Some (lv AND rv)
     | BitOr \<Rightarrow> Some (lv OR rv)
     | Xor \<Rightarrow> Some (lv XOR rv)
     | ShiftLeft \<Rightarrow> Some (c_shl lv rv)
     | ShiftRight \<Rightarrow> Some (c_shr lv rv)
     | _ \<Rightarrow> None)"

definition fold_float :: "'f FloatOps \<Rightarrow> Compiler \<Rightarrow> Operator \<Rightarrow> 'f \<Rightarrow> 'f \<Rightarrow> 'f ASTNode option" where
  "fold_float fo cmp op lv rv = (case op of
       Mul \<Rightarrow> Some (ASTliteral_float cmp (fl_mul fo lv rv))
     | Div \<Rightarrow> Some (ASTliteral_float cmp (if fl_nonzero fo rv then fl_div fo lv rv else fl_zero fo))
     | Add \<Rightarrow> Some (ASTliteral_float cmp (fl_add fo lv rv))
     | Sub \<Rightarrow> Some (ASTliteral_float cmp (fl_sub fo lv rv))
     | Equal \<Rightarrow> Some (ASTliteral_int cmp (if fl_eq fo lv rv then 1 else 0))
     | NotEqual \<Rightarrow> Some (ASTliteral_int cmp (if \<not> fl_eq fo lv rv then 1 else 0))
     | Greater \<Rightarrow> Some (ASTliteral_int cmp (if fl_lt fo rv lv then 1 else 0))
     | Less \<Rightarrow> Some (ASTliteral_int cmp (if fl_lt fo lv rv then 1 else 0))
     | GreaterEqual \<Rightarrow> Some (ASTliteral_int cmp (if fl_le fo rv lv then 1 else 0))
     | LessEqual \<Rightarrow> Some (ASTliteral_int cmp (if fl_le fo lv rv then 1 else 0))
     | _ \<Rightarrow> None)"

text \<open>
  \<^verbatim>\<open>ASTbinary_expression::make\<close>, the folding entry point. The operands are read
  through \<^verbatim>\<open>dynamic_cast<ASTliteral*>\<close>; on a node that is not a literal object the
  cast is null and its dereference is a fault.
\<close>

definition ASTbinary_expression_make ::
  "'f FloatOps \<Rightarrow> Compiler \<Rightarrow> Operator \<Rightarrow> 'f ASTNode \<Rightarrow> 'f ASTNode \<Rightarrow> Fault + 'f ASTNode" where
  "ASTbinary_expression_make fo cmp op left right =
     (if nodetype left = literal_node \<and> nodetype right = literal_node then
        (if is_int (m_typespec left) \<and> is_int (m_typespec right) then
           (case (intval left, intval right) of
              (Some lv, Some rv) \<Rightarrow>
                (case fold_int op lv rv of
                   Some v \<Rightarrow> Inr (ASTliteral_int cmp v)
                 | None \<Rightarrow> ASTbinary_expression cmp op left right)
            | _ \<Rightarrow> Inl NullDeref)
         else if is_float (m_typespec left) \<and> is_float (m_typespec right) then
           (case (floatval fo left, floatval fo right) of
              (Some lv, Some rv) \<Rightarrow>
                (case fold_float fo cmp op lv rv of
                   Some cf \<Rightarrow> Inr cf
                 | None \<Rightarrow> ASTbinary_expression cmp op left right)
            | _ \<Rightarrow> Inl NullDeref)
         else ASTbinary_expression cmp op left right)
      else ASTbinary_expression cmp op left right)"


subsection \<open>Assignment and the writeability check\<close>

text \<open>\<^verbatim>\<open>lvalue()\<close> of an index or struct-select node is its first child.\<close>

definition lvalue :: "'f ASTNode \<Rightarrow> 'f ASTNode option" where
  "lvalue n = child n 0"

text \<open>The symbol of a variable reference or of a declaration (\<^verbatim>\<open>sym()\<close>).\<close>

definition sym :: "'f ASTNode \<Rightarrow> Symbol option" where
  "sym n = (case m_data n of
       VarRefData _ s \<Rightarrow> s
     | VarDeclData _ s _ _ _ _ \<Rightarrow> s
     | FuncDeclData _ s _ \<Rightarrow> s
     | _ \<Rightarrow> None)"

definition dquote :: string where
  "dquote = [CHR 0x22]"

text \<open>
  \<^verbatim>\<open>ASTNode::check_symbol_writeability\<close>, a method of the node \<open>this\<close> that reports.
  The recursive calls through index and struct-select wrappers pass neither \<^verbatim>\<open>quiet\<close>
  nor \<^verbatim>\<open>dest_sym\<close>, so they run with \<^verbatim>\<open>quiet = false\<close>. A wrapper without a first
  child hands a null pointer to the recursive call. The out-parameter \<^verbatim>\<open>dest_sym\<close> is
  left out: no constructor passes it.
\<close>

fun check_symbol_writeability ::
  "'f ASTNode \<Rightarrow> 'f ASTNode \<Rightarrow> bool \<Rightarrow> Compiler \<Rightarrow> Fault + (bool \<times> Compiler)" where
  "check_symbol_writeability this (ASTNode nt f l op kids nx t lv d) quiet cmp =
     (if nt = index_node \<or> nt = structselect_node then
        (case kids of
           Some c # _ \<Rightarrow> check_symbol_writeability this c False cmp
         | _ \<Rightarrow> Inl NullDeref)
      else
        (let dest = (if nt = variable_ref_node \<or> nt = variable_declaration_node
                     then sym (ASTNode nt f l op kids nx t lv d) else None)
         in case dest of
              Some ds \<Rightarrow>
                if sym_readonly ds then
                  Inr (False,
                       if \<not> quiet
                       then warningfmt this
                              (''cannot write to non-output parameter '' @ dquote @ sym_name ds @ dquote) cmp
                       else cmp)
                else Inr (True, cmp)
            | None \<Rightarrow> Inr (True, cmp)))"

text \<open>
  \<^verbatim>\<open>ASTassign_expression::ASTassign_expression\<close>: a compound operator is rewritten to
  plain assignment of a binary expression built by the plain constructor; then the
  writeability of \<open>var\<close> is checked.
\<close>

definition ASTassign_expression ::
  "Compiler \<Rightarrow> 'f ASTNode \<Rightarrow> Operator \<Rightarrow> 'f ASTNode \<Rightarrow> Fault + ('f ASTNode \<times> Compiler)" where
  "ASTassign_expression cmp var op expr =
     (let n = ASTNode_base assign_expression_node cmp (OperatorOp op) [Some var, Some expr] NoData
      in case (if op \<noteq> Assign then
                 (case ASTbinary_expression cmp op var expr of
                    Inl e \<Rightarrow> Inl e
                  | Inr b \<Rightarrow> Inr (set_children ((m_children n)[1 := Some b]) (set_op (OperatorOp Assign) n)))
               else Inr n) of
           Inl e \<Rightarrow> Inl e
         | Inr n' \<Rightarrow>
            (case check_symbol_writeability n' var False cmp of
               Inl e \<Rightarrow> Inl e
             | Inr (_, cmp') \<Rightarrow> Inr (n', cmp')))"

subsection \<open>Indexing\<close>

text \<open>
  \<^verbatim>\<open>ASTindex::ASTindex\<close>. \<open>expr\<close> and \<open>index\<close> are given, \<open>index2\<close> and \<open>index3\<close> may be
  null. When the base of a one-index access is itself an index node with two children,
  the node is rebuilt over that node's base with two indices. The \<^verbatim>\<open>OSL_DASSERT\<close>
  lines are compiled out of release builds and are not part of the model.
\<close>

definition index_typespec :: "TypeSpec \<Rightarrow> bool \<Rightarrow> bool \<Rightarrow> TypeSpec" where
  "index_typespec et has_index2 has_index3 =
     (if \<not> has_index2 then
        (if is_array et then elementtype et
         else if \<not> is_closure et \<and> is_triple et then TypeFloat
         else TypeSpec_default)
      else if \<not> has_index3 then
        (if is_matrix et then TypeFloat
         else if is_array et \<and> is_triple (elementtype et) then TypeFloat
         else TypeSpec_default)
      else
        (if is_array et \<and> is_matrix (elementtype et) then TypeFloat
         else TypeSpec_default))"

definition ASTindex ::
  "Compiler \<Rightarrow> 'f ASTNode \<Rightarrow> 'f ASTNode \<Rightarrow> 'f ASTNode option \<Rightarrow> 'f ASTNode option
     \<Rightarrow> Fault + ('f ASTNode \<times> Compiler)" where
  "ASTindex cmp expr index index2 index3 =
     (let n0 = ASTNode_base index_node cmp NoOp [Some expr, Some index] NoData;
          n1 = (if index2 \<noteq> None then set_children (m_children n0 @ [index2]) n0 else n0);
          n2 = (if index3 \<noteq> None then set_children (m_children n1 @ [index3]) n1 else n1);
          rearrange = (index2 = None \<and> nodetype expr = index_node \<and> nchildren expr = 2);
          n3 = (if rearrange then set_children [child expr 0, child expr 1, Some index] n2 else n2);
          expr' = (if rearrange then child expr 0 else Some expr);
          index2' = (if rearrange then Some index else index2)
      in case expr' of
           None \<Rightarrow> Inl NullDeref
         | Some e \<Rightarrow>
            (let n4 = set_typespec (index_typespec (m_typespec e) (index2' \<noteq> None) (index3 \<noteq> None)) n3
             in if is_unknown (m_typespec n4)
                then Inr (n4, errorfmt n4 ''indexing into non-array or non-component type'' cmp)
                else Inr (n4, cmp)))"

subsection \<open>Collaborators outside this file\<close>

text \<open>
  The constructors call into code that is not part of \<^verbatim>\<open>ast.cpp\<close>. These parts
  are parameters:
  \<^item> \<open>type_string\<close>, the formatting of a type descriptor in a message;
  \<^item> \<open>structspec\<close>, the type library's lookup of the specification of a structure
    type (\<open>None\<close> is the null pointer);
  \<^item> \<open>code_from_type\<close>, the compiler's signature code of a type;
  \<^item> \<open>fs_filename\<close>, the file-name part of a path (OpenImageIO's
    \<^verbatim>\<open>Filesystem::filename\<close>);
  \<^item> \<open>typecheck_initlist\<close> and \<open>typecheck_function\<close>, the type checker on a compound
    initializer and on a function declaration: the checked node and the diagnostics
    reported;
  \<^item> \<open>add_struct_fields\<close>, the struct-field materialization: the symbols it creates and
    inserts, and the diagnostics reported.
\<close>

text \<open>
  Modelled from the spec: the struct specification of the type-descriptor library
  gives a structure's name and, by index, each field's name and type.
\<close>

record StructSpec =
  ss_name :: string
  ss_fields :: "(string \<times> TypeSpec) list"

record 'f Env =
  type_string :: "TypeSpec \<Rightarrow> string"
  structspec :: "TypeSpec \<Rightarrow> StructSpec option"
  code_from_type :: "TypeSpec \<Rightarrow> string"
  fs_filename :: "string \<Rightarrow> string"
  typecheck_initlist :: "Compiler \<Rightarrow> 'f ASTNode \<Rightarrow> TypeSpec \<Rightarrow> 'f ASTNode \<times> Diag list"
  typecheck_function :: "Compiler \<Rightarrow> 'f ASTNode \<Rightarrow> 'f ASTNode \<times> Diag list"
  add_struct_fields ::
    "Compiler \<Rightarrow> TypeSpec \<Rightarrow> string \<Rightarrow> SymType \<Rightarrow> int \<Rightarrow> 'f ASTNode \<Rightarrow> 'f ASTNode option
       \<Rightarrow> Symbol list \<times> Diag list"

definition report_all :: "Diag list \<Rightarrow> Compiler \<Rightarrow> Compiler" where
  "report_all ds cmp = cmp\<lparr>diags := diags cmp @ ds\<rparr>"

definition insert_symbol :: "Symbol \<Rightarrow> Compiler \<Rightarrow> Compiler" where
  "insert_symbol s cmp = cmp\<lparr>symtab := symtab_insert s (symtab cmp)\<rparr>"

subsection \<open>Strings\<close>

definition squote :: string where
  "squote = [CHR 0x27]"

definition starts_with :: "string \<Rightarrow> string \<Rightarrow> bool" where
  "starts_with s pre = (take (length pre) s = pre)"

text \<open>
  The \<^verbatim>\<open>{}\<close> formatting of an \<^verbatim>\<open>int\<close>: the decimal digits, least significant
  first onto an accumulator, and a minus sign in front of a negative number.
\<close>

definition digit_char :: "nat \<Rightarrow> char" where
  "digit_char d = ''0123456789'' ! d"

fun format_nat :: "nat \<Rightarrow> string \<Rightarrow> string" where
  "format_nat n acc =
     (let acc' = digit_char (n mod 10) # acc
      in if n div 10 = 0 then acc' else format_nat (n div 10) acc')"

definition format_int :: "int \<Rightarrow> string" where
  "format_int i = (if 0 \<le> i then format_nat (nat i) [] else CHR ''-'' # format_nat (nat (- i)) [])"

subsection \<open>Sibling chains\<close>

text \<open>The nodes reached from a head by following \<^verbatim>\<open>nextptr()\<close>, in order.\<close>

fun siblings :: "'f ASTNode option \<Rightarrow> 'f ASTNode list" where
  "siblings None = []"
| "siblings (Some (ASTNode nt f l op kids nx t lv d)) =
     ASTNode nt f l op kids nx t lv d # siblings nx"

subsection \<open>Variable declarations\<close>

text \<open>
  Modelled from the spec: \<^verbatim>\<open>new Symbol(name, type, symtype, node)\<close>. A fresh symbol has
  scope 0 until the table inserts it; it is read-only when it is a non-output parameter.
\<close>

definition Symbol_new :: "string \<Rightarrow> TypeSpec \<Rightarrow> SymType \<Rightarrow> DeclRef \<Rightarrow> Symbol" where
  "Symbol_new nm t k d = Symbol nm t k 0 (Some d) (k = SymTypeParam) [] None"

definition declref :: "'f ASTNode \<Rightarrow> bool \<Rightarrow> bool \<Rightarrow> DeclRef" where
  "declref n stmts builtin =
     \<lparr>decl_sourcefile = m_sourcefile n, decl_sourceline = m_sourceline n,
      decl_statements = stmts, decl_is_builtin = builtin\<rparr>"

text \<open>The members of an \<^verbatim>\<open>ASTvariable_declaration\<close> that other constructors read.\<close>

definition init :: "'f ASTNode \<Rightarrow> 'f ASTNode option" where
  "init n = child n 0"

definition name :: "'f ASTNode \<Rightarrow> string" where
  "name n = (case m_data n of
       VarDeclData nm _ _ _ _ _ \<Rightarrow> nm
     | VarRefData nm _ \<Rightarrow> nm
     | FuncDeclData nm _ _ \<Rightarrow> nm
     | _ \<Rightarrow> [])"

definition is_output :: "'f ASTNode \<Rightarrow> bool" where
  "is_output n = (case m_data n of VarDeclData _ _ _ outp _ _ \<Rightarrow> outp | _ \<Rightarrow> False)"

text \<open>The message of the redeclaration check, lines 555 to 563.\<close>

definition already_declared_msg :: "'f Env \<Rightarrow> string \<Rightarrow> Symbol \<Rightarrow> string" where
  "already_declared_msg env nm f =
     (let e = dquote @ nm @ dquote @ '' already declared in this scope''
      in case sym_node f of
           Some d \<Rightarrow>
             e @ [CHR 0x0A, CHR 0x09, CHR 0x09] @ ''previous declaration was at ''
               @ fs_filename env (decl_sourcefile d) @ '':'' @ format_int (decl_sourceline d)
         | None \<Rightarrow> e)"

definition three_underscores_msg :: "string \<Rightarrow> string" where
  "three_underscores_msg nm =
     dquote @ nm @ dquote @ '' : sorry, can'' @ squote @ ''t start with three underscores''"

text \<open>Lines 546 to 550: an initializer list is type-checked early.\<close>

definition vardecl_typecheck_initlist ::
  "'f Env \<Rightarrow> Compiler \<Rightarrow> TypeSpec \<Rightarrow> 'f ASTNode option \<Rightarrow> bool \<Rightarrow> 'f ASTNode
     \<Rightarrow> Fault + ('f ASTNode \<times> Compiler)" where
  "vardecl_typecheck_initlist env cmp type ini initlist n =
     (case ini of
        Some i \<Rightarrow>
          if initlist then
            (if nodetype i = compound_initializer_node
             then (let (i', ds) = typecheck_initlist env cmp i type
                   in Inr (set_children [Some i', None] n, report_all ds cmp))
             else Inl (AssertFailed ''init->nodetype() == compound_initializer_node''))
          else Inr (n, cmp)
      | None \<Rightarrow> Inr (n, cmp))"

text \<open>Lines 553 to 570: the redeclaration check, reported by the node \<open>n\<close>.\<close>

definition vardecl_redeclaration_check ::
  "'f Env \<Rightarrow> string \<Rightarrow> bool \<Rightarrow> bool \<Rightarrow> 'f ASTNode \<Rightarrow> Compiler \<Rightarrow> Compiler" where
  "vardecl_redeclaration_check env nm ismeta isparam n cmp =
     (case symtab_clash (symtab cmp) nm of
        Some f \<Rightarrow>
          if \<not> ismeta then
            (let e = already_declared_msg env nm f
             in if sym_scope f = 0 \<and> sym_symtype f = SymTypeFunction \<and> isparam
                then warningfmt n e cmp
                else errorfmt n e cmp)
          else cmp
      | None \<Rightarrow> cmp)"

text \<open>Lines 574 to 579: the kind of the new symbol.\<close>

definition vardecl_symtype :: "string \<Rightarrow> bool \<Rightarrow> bool \<Rightarrow> SymType" where
  "vardecl_symtype nm isparam isoutput =
     (let symtype = (if isparam then (if isoutput then SymTypeOutputParam else SymTypeParam)
                     else SymTypeLocal)
      in if symtype = SymTypeLocal \<and> starts_with nm ''__debug_tmp__''
         then SymTypeTemp else symtype)"

text \<open>
  \<^verbatim>\<open>ASTvariable_declaration::ASTvariable_declaration\<close>. The symbol of a metadata
  declaration stays with the node; any other is inserted into the symbol table.
\<close>

definition ASTvariable_declaration ::
  "'f Env \<Rightarrow> Compiler \<Rightarrow> TypeSpec \<Rightarrow> string \<Rightarrow> 'f ASTNode option \<Rightarrow> bool \<Rightarrow> bool \<Rightarrow> bool \<Rightarrow> bool
     \<Rightarrow> int \<Rightarrow> Fault + ('f ASTNode \<times> Compiler)" where
  "ASTvariable_declaration env cmp type nm ini isparam ismeta isoutput initlist sourceline_start =
     (let n0 = ASTNode_base variable_declaration_node cmp NoOp [ini, None]
                 (VarDeclData nm None isparam isoutput ismeta initlist);
          n1 = (if sourceline_start \<ge> 0 then set_sourceline sourceline_start n0 else n0)
      in case vardecl_typecheck_initlist env cmp type ini initlist n1 of
           Inl e \<Rightarrow> Inl e
         | Inr (n2, cmp1) \<Rightarrow>
            (let n3 = set_typespec type n2;
                 cmp2 = vardecl_redeclaration_check env nm ismeta isparam n3 cmp1;
                 cmp3 = (if starts_with nm ''___''
                         then errorfmt n3 (three_underscores_msg nm) cmp2 else cmp2);
                 symtype = vardecl_symtype nm isparam isoutput;
                 s0 = Symbol_new nm type symtype (declref n3 False False);
                 s = (if ismeta then s0 else with_scope (st_scopeid (symtab cmp3)) s0);
                 cmp4 = (if ismeta then cmp3 else insert_symbol s0 cmp3);
                 n4 = set_data (VarDeclData nm (Some s) isparam isoutput ismeta initlist) n3
             in if is_structure type \<or> is_structure_array type then
                  (if ismeta then Inl (AssertFailed ''!m_ismetadata'')
                   else (let (fields, ds) =
                               add_struct_fields env cmp4 type (sym_name s) symtype
                                 (if is_unsized_array type then - 1 else arraylength type) n4 (init n4)
                         in Inr (n4, report_all ds (fold insert_symbol fields cmp4))))
                else Inr (n4, cmp4)))"

subsection \<open>Shader declarations\<close>

definition requires_initializer_msg :: "string \<Rightarrow> string" where
  "requires_initializer_msg nm =
     ''shader parameter '' @ squote @ nm @ squote @ '' requires a default initializer''"

definition unsized_output_msg :: "string \<Rightarrow> string" where
  "unsized_output_msg nm =
     ''shader output parameter '' @ squote @ nm @ squote @ '' can'' @ squote @ ''t be unsized array''"

text \<open>The loop of \<^verbatim>\<open>ASTshader_declaration::ASTshader_declaration\<close> over the formals.\<close>

fun shader_check_formals :: "'f ASTNode list \<Rightarrow> Compiler \<Rightarrow> Fault + Compiler" where
  "shader_check_formals [] cmp = Inr cmp"
| "shader_check_formals (v # rest) cmp =
     (if nodetype v \<noteq> variable_declaration_node
      then Inl (AssertFailed ''arg->nodetype() == variable_declaration_node'')
      else
        (let cmp1 = (if init v = None
                     then errorfmt v (requires_initializer_msg (name v)) cmp else cmp);
             cmp2 = (if is_output v \<and> is_unsized_array (m_typespec v)
                     then errorfmt v (unsized_output_msg (name v)) cmp1 else cmp1)
         in shader_check_formals rest cmp2))"

definition ASTshader_declaration ::
  "Compiler \<Rightarrow> int \<Rightarrow> string \<Rightarrow> 'f ASTNode option \<Rightarrow> 'f ASTNode option \<Rightarrow> 'f ASTNode option
     \<Rightarrow> Fault + ('f ASTNode \<times> Compiler)" where
  "ASTshader_declaration cmp stype nm form stmts meta =
     (let n = ASTNode_base shader_declaration_node cmp (ShaderTypeOp stype) [meta, form, stmts]
                (ShaderDeclData nm)
      in case shader_check_formals (siblings form) cmp of
           Inl e \<Rightarrow> Inl e
         | Inr cmp' \<Rightarrow> Inr (n, cmp'))"

subsection \<open>Function declarations\<close>

definition no_default_initializer_msg :: "string \<Rightarrow> string" where
  "no_default_initializer_msg nm =
     ''function parameter '' @ squote @ nm @ squote @ '' may not have a default initializer.''"

text \<open>
  The loop that builds the argument signature. It stops at the first formal of unknown
  type: \<open>None\<close> in place of the signature is the early \<^verbatim>\<open>return\<close>.
\<close>

fun function_formals_loop ::
  "'f Env \<Rightarrow> 'f ASTNode list \<Rightarrow> string \<Rightarrow> Compiler \<Rightarrow> Fault + (string option \<times> Compiler)" where
  "function_formals_loop env [] argcodes cmp = Inr (Some argcodes, cmp)"
| "function_formals_loop env (arg # rest) argcodes cmp =
     (if m_typespec arg = TypeSpec_default then Inr (None, cmp)
      else if nodetype arg \<noteq> variable_declaration_node
      then Inl (AssertFailed ''arg->nodetype() == variable_declaration_node'')
      else function_formals_loop env rest (argcodes @ code_from_type env (m_typespec arg))
             (if init arg \<noteq> None
              then errorfmt arg (no_default_initializer_msg (name arg)) cmp else cmp))"

text \<open>\<^verbatim>\<open>ASTNode::list_to_types_string\<close>, with the loop counter \<open>i\<close>.\<close>

fun list_to_types_string :: "'f Env \<Rightarrow> 'f ASTNode list \<Rightarrow> nat \<Rightarrow> string" where
  "list_to_types_string env [] i = []"
| "list_to_types_string env (n # ns) i =
     (if i \<noteq> 0 then '', '' else []) @ type_string env (m_typespec n)
       @ list_to_types_string env ns (Suc i)"

text \<open>The symbols of a polymorphic chain, following \<^verbatim>\<open>nextpoly()\<close>.\<close>

fun poly_chain :: "Symbol option \<Rightarrow> Symbol list" where
  "poly_chain None = []"
| "poly_chain (Some (Symbol n t k sc d r a p)) = Symbol n t k sc d r a p # poly_chain p"

text \<open>The loop over the chain that accumulates the redefinition message in \<^verbatim>\<open>err\<close>.\<close>

fun redefinition_loop ::
  "'f Env \<Rightarrow> string \<Rightarrow> int \<Rightarrow> string \<Rightarrow> Symbol list \<Rightarrow> string \<Rightarrow> string" where
  "redefinition_loop env hdr current_scope argcodes [] err = err"
| "redefinition_loop env hdr current_scope argcodes (f # fs) err =
     redefinition_loop env hdr current_scope argcodes fs
       (if sym_scope f = current_scope \<and> sym_argcodes f = argcodes then
          (case sym_node f of
             None \<Rightarrow> (if err = [] then hdr else err) @ [CHR 0x0A] @ ''    '' @ ''built-in''
           | Some other \<Rightarrow>
               if decl_statements other \<or> decl_is_builtin other
               then (if err = [] then hdr else err) @ [CHR 0x0A] @ ''    ''
                      @ fs_filename env (decl_sourcefile other) @ '':''
                      @ format_int (decl_sourceline other)
               else err)
        else err)"

definition redefined_header :: "'f Env \<Rightarrow> TypeSpec \<Rightarrow> string \<Rightarrow> 'f ASTNode option \<Rightarrow> string" where
  "redefined_header env type nm form =
     ''Function '' @ squote @ type_string env type @ '' '' @ nm @ '' (''
       @ list_to_types_string env (siblings form) 0 @ '')'' @ squote
       @ '' redefined in the same scope'' @ [CHR 0x0A] @ ''  Previous definitions:''"

definition already_declared_as_msg :: "'f Env \<Rightarrow> string \<Rightarrow> Symbol \<Rightarrow> string" where
  "already_declared_as_msg env nm e =
     dquote @ nm @ dquote @ '' already declared in this scope as a ''
       @ type_string env (sym_typespec e)"

text \<open>
  \<^verbatim>\<open>ASTfunction_declaration::ASTfunction_declaration\<close>. The new function symbol heads the
  polymorphic chain of the existing ones; the declaration is type-checked at once.
\<close>

definition ASTfunction_declaration ::
  "'f Env \<Rightarrow> Compiler \<Rightarrow> TypeSpec \<Rightarrow> string \<Rightarrow> 'f ASTNode option \<Rightarrow> 'f ASTNode option
     \<Rightarrow> 'f ASTNode option \<Rightarrow> int \<Rightarrow> Fault + ('f ASTNode \<times> Compiler)" where
  "ASTfunction_declaration env cmp type nm form stmts meta sourceline_start =
     (let n0 = ASTNode_base function_declaration_node cmp NoOp [meta, form, stmts]
                 (FuncDeclData nm None False);
          n1 = (if sourceline_start \<ge> 0 then set_sourceline sourceline_start n0 else n0);
          cmp1 = (if starts_with nm ''___''
                  then errorfmt n1 (three_underscores_msg nm) cmp else cmp);
          clash = symtab_clash (symtab cmp1) nm;
          not_function = (case clash of Some e \<Rightarrow> sym_symtype e \<noteq> SymTypeFunction | None \<Rightarrow> False);
          cmp2 = (case clash of
                    Some e \<Rightarrow> if not_function
                              then errorfmt n1 (already_declared_as_msg env nm e) cmp1 else cmp1
                  | None \<Rightarrow> cmp1);
          existing_syms = (if not_function then None else clash);
          n2 = set_typespec type n1
      in case function_formals_loop env (siblings form) (code_from_type env type) cmp2 of
           Inl e \<Rightarrow> Inl e
         | Inr (None, cmp3) \<Rightarrow> Inr (set_typespec TypeSpec_default n2, cmp3)
         | Inr (Some argcodes, cmp3) \<Rightarrow>
            (let cmp4 = (if stmts \<noteq> None then
                           (let err = redefinition_loop env (redefined_header env type nm form)
                                        (st_scopeid (symtab cmp3)) argcodes
                                        (poly_chain existing_syms) []
                            in if err \<noteq> [] then warningfmt n2 err cmp3 else cmp3)
                         else cmp3);
                 s = Symbol nm type SymTypeFunction (st_scopeid (symtab cmp4))
                       (Some (declref n2 (stmts \<noteq> None) False)) False argcodes existing_syms;
                 n3 = set_data (FuncDeclData nm (Some s) False) n2;
                 cmp5 = insert_symbol s cmp4;
                 (n4, ds) = typecheck_function env cmp5 n3
             in Inr (n4, report_all ds cmp5)))"

subsection \<open>Struct and component selection\<close>

text \<open>The members of an \<^verbatim>\<open>ASTstructselect\<close>, and the assignment of the ones that change.\<close>

definition fieldname :: "'f ASTNode \<Rightarrow> string" where
  "fieldname n = (case m_data n of StructselectData _ _ _ fn _ _ \<Rightarrow> fn | _ \<Rightarrow> [])"

definition field :: "'f ASTNode \<Rightarrow> string" where
  "field n = (case m_data n of StructselectData fl _ _ _ _ _ \<Rightarrow> fl | _ \<Rightarrow> [])"

definition compindex :: "'f ASTNode \<Rightarrow> 'f ASTNode option" where
  "compindex n = (case m_data n of StructselectData _ _ _ _ _ ci \<Rightarrow> ci | _ \<Rightarrow> None)"

definition fieldsym :: "'f ASTNode \<Rightarrow> Symbol option" where
  "fieldsym n = (case m_data n of StructselectData _ _ _ _ fs _ \<Rightarrow> fs | _ \<Rightarrow> None)"

definition set_fieldid :: "int \<Rightarrow> 'f ASTNode \<Rightarrow> 'f ASTNode" where
  "set_fieldid i n = (case m_data n of
       StructselectData fl sid _ fn fs ci \<Rightarrow> set_data (StructselectData fl sid i fn fs ci) n
     | _ \<Rightarrow> n)"

definition set_structid :: "int \<Rightarrow> 'f ASTNode \<Rightarrow> 'f ASTNode" where
  "set_structid i n = (case m_data n of
       StructselectData fl _ fid fn fs ci \<Rightarrow> set_data (StructselectData fl i fid fn fs ci) n
     | _ \<Rightarrow> n)"

definition set_compindex :: "'f ASTNode option \<Rightarrow> 'f ASTNode \<Rightarrow> 'f ASTNode" where
  "set_compindex ci n = (case m_data n of
       StructselectData fl sid fid fn fs _ \<Rightarrow> set_data (StructselectData fl sid fid fn fs ci) n
     | _ \<Rightarrow> n)"

definition set_fieldsym :: "Symbol option \<Rightarrow> 'f ASTNode \<Rightarrow> 'f ASTNode" where
  "set_fieldsym fs n = (case m_data n of
       StructselectData fl sid fid fn _ ci \<Rightarrow> set_data (StructselectData fl sid fid fn fs ci) n
     | _ \<Rightarrow> n)"

definition set_fieldname :: "string \<Rightarrow> 'f ASTNode \<Rightarrow> 'f ASTNode" where
  "set_fieldname fn n = (case m_data n of
       StructselectData fl sid fid _ fs ci \<Rightarrow> set_data (StructselectData fl sid fid fn fs ci) n
     | _ \<Rightarrow> n)"

text \<open>The loop that finds the index of the field named \<open>fl\<close>, or \<open>-1\<close>.\<close>

fun field_index :: "(string \<times> TypeSpec) list \<Rightarrow> string \<Rightarrow> int \<Rightarrow> int" where
  "field_index [] fl i = - 1"
| "field_index (fd # fds) fl i = (if fst fd = fl then i else field_index fds fl (i + 1))"

definition no_member_msg :: "'f Env \<Rightarrow> TypeSpec \<Rightarrow> string \<Rightarrow> string" where
  "no_member_msg env lvtype fl =
     ''type '' @ squote @ type_string env lvtype @ squote @ '' does not have a member ''
       @ squote @ fl @ squote"

definition struct_no_member_msg :: "string \<Rightarrow> string \<Rightarrow> string" where
  "struct_no_member_msg sname fl =
     ''struct type '' @ squote @ sname @ squote @ '' does not have a member ''
       @ squote @ fl @ squote"

lemma size_child:
  assumes "Some c \<in> set (m_children n)"
  shows "size c < size n"
proof (cases n)
  case (ASTNode nt f l op kids nx t lv d)
  have "size_option size (Some c) \<le> size_list (size_option size) kids"
    using assms ASTNode by (intro size_list_estimation') auto
  then show ?thesis using ASTNode by simp
qed

lemma size_lvalue: "lvalue n = Some c \<Longrightarrow> size c < size n"
  unfolding lvalue_def child_def
  by (rule size_child) (auto split: if_splits simp: in_set_conv_nth)

text \<open>
  \<^verbatim>\<open>ASTstructselect::find_fieldsym\<close> and \<^verbatim>\<open>ASTstructselect::find_structsym\<close>.
  \<open>find_fieldsym\<close> returns the field symbol (or null) and the node with the members it
  assigned: \<open>m_fieldid\<close>, \<open>m_structid\<close> (the reference parameters of the constructor's
  call), \<open>m_compindex\<close> and \<open>m_is_lvalue\<close>. \<open>find_structsym\<close> dereferences the symbol
  that the inner \<open>find_fieldsym\<close> returns without a null check.
\<close>

function find_fieldsym ::
    "'f Env \<Rightarrow> Compiler \<Rightarrow> 'f ASTNode
       \<Rightarrow> Fault + (Symbol option \<times> 'f ASTNode \<times> Compiler)"
  and find_structsym ::
    "'f Env \<Rightarrow> Compiler \<Rightarrow> 'f ASTNode
       \<Rightarrow> Fault + (string \<times> TypeSpec \<times> Compiler)"
where
  "find_fieldsym env cmp this =
     (case lvalue this of
        None \<Rightarrow> Inl NullDeref
      | Some lv \<Rightarrow>
         (let lvtype = m_typespec lv
          in if is_color lvtype
                \<and> (fieldname this = ''r'' \<or> fieldname this = ''g'' \<or> fieldname this = ''b'') then
               (let fieldid = (if fieldname this = ''r'' then 0
                               else if fieldname this = ''g'' then 1 else 2)
                in case ASTindex cmp lv (ASTliteral_int cmp fieldid) None None of
                     Inl e \<Rightarrow> Inl e
                   | Inr (ix, cmp') \<Rightarrow>
                       Inr (None,
                            set_is_lvalue True
                              (set_compindex (Some ix) (set_fieldid (sint fieldid) this)),
                            cmp'))
             else if is_vectriple lvtype
                \<and> (fieldname this = ''x'' \<or> fieldname this = ''y'' \<or> fieldname this = ''z'') then
               (let fieldid = (if fieldname this = ''x'' then 0
                               else if fieldname this = ''y'' then 1 else 2)
                in case ASTindex cmp lv (ASTliteral_int cmp fieldid) None None of
                     Inl e \<Rightarrow> Inl e
                   | Inr (ix, cmp') \<Rightarrow>
                       Inr (None,
                            set_is_lvalue True
                              (set_compindex (Some ix) (set_fieldid (sint fieldid) this)),
                            cmp'))
             else if \<not> is_structure lvtype \<and> \<not> is_structure_array lvtype then
               Inr (None, this, errorfmt this (no_member_msg env lvtype (field this)) cmp)
             else
               (case find_structsym env cmp lv of
                  Inl e \<Rightarrow> Inl e
                | Inr (structsymname, structtype, cmp1) \<Rightarrow>
                   (case structspec env structtype of
                      None \<Rightarrow> Inl NullDeref
                    | Some spec \<Rightarrow>
                       (let fieldid = field_index (ss_fields spec) (field this) 0;
                            this' = set_fieldid fieldid
                                      (set_structid (int (ts_structure structtype)) this)
                        in if fieldid < 0 then
                             Inr (None, this',
                                  errorfmt this (struct_no_member_msg (ss_name spec) (field this)) cmp1)
                           else
                             (let fieldsymname =
                                    structsymname @ ''.'' @ fst (ss_fields spec ! nat fieldid)
                              in Inr (symtab_find (symtab cmp1) fieldsymname, this', cmp1)))))))"
| "find_structsym env cmp structnode =
     (if nodetype structnode = variable_ref_node then
        Inr (name structnode, m_typespec structnode, cmp)
      else if nodetype structnode = structselect_node then
        (case find_fieldsym env cmp structnode of
           Inl e \<Rightarrow> Inl e
         | Inr (None, _, _) \<Rightarrow> Inl NullDeref
         | Inr (Some s, _, cmp') \<Rightarrow> Inr (sym_name s, sym_typespec s, cmp'))
      else if nodetype structnode = index_node then
        (case lvalue structnode of
           None \<Rightarrow> Inl NullDeref
         | Some a \<Rightarrow>
            (case find_structsym env cmp a of
               Inl e \<Rightarrow> Inl e
             | Inr (nm, ty, cmp') \<Rightarrow> Inr (nm, make_array 0 ty, cmp')))
      else Inl (AssertFailed ''Malformed ASTstructselect''))"
  by pat_completeness auto
termination
  by (relation "measure (\<lambda>x. case x of
                   Inl (_, _, n) \<Rightarrow> 2 * size n
                 | Inr (_, _, n) \<Rightarrow> 2 * size n + 1)")
     (auto dest: size_lvalue)

declare find_fieldsym.simps [simp del] find_structsym.simps [simp del]

text \<open>\<^verbatim>\<open>ASTstructselect::ASTstructselect\<close>.\<close>

definition ASTstructselect ::
  "'f Env \<Rightarrow> Compiler \<Rightarrow> 'f ASTNode \<Rightarrow> string
     \<Rightarrow> Fault + ('f ASTNode \<times> Compiler)" where
  "ASTstructselect env cmp expr fl =
     (let n0 = ASTNode_base structselect_node cmp NoOp [Some expr]
                 (StructselectData fl (- 1) (- 1) fl None None)
      in case find_fieldsym env cmp n0 of
           Inl e \<Rightarrow> Inl e
         | Inr (fs, n1, cmp') \<Rightarrow>
            (let n2 = set_fieldsym fs n1
             in case fs of
                  Some s \<Rightarrow> Inr (set_typespec (sym_typespec s) (set_fieldname (sym_name s) n2), cmp')
                | None \<Rightarrow>
                    if compindex n2 \<noteq> None then Inr (set_typespec TypeFloat n2, cmp')
                    else Inr (n2, cmp')))"

subsection \<open>Destruction\<close>

text \<open>
  The references a node holds besides \<open>m_next\<close>: its children and, for a struct-select
  node, the synthesized index node. They are released when the node's members are
  destroyed, after the body of \<^verbatim>\<open>~ASTNode\<close> has run.
\<close>

definition owned :: "'f ASTNode \<Rightarrow> 'f ASTNode list" where
  "owned n = map the (filter (\<lambda>c. c \<noteq> None) (m_children n))
               @ (case compindex n of Some c \<Rightarrow> [c] | None \<Rightarrow> [])"

text \<open>
  The loop of \<^verbatim>\<open>ASTNode::~ASTNode\<close>, as a function of the value of \<open>m_next\<close>: an
  iteration takes the next sibling \<open>n\<close>, makes \<open>m_next\<close> skip it, resets \<open>n\<close>'s own
  link, and releases \<open>n\<close> at the end of the iteration. The result lists the nodes
  released, in order, as they are when released.
\<close>

fun dtor_loop :: "'f ASTNode option \<Rightarrow> 'f ASTNode list" where
  "dtor_loop None = []"
| "dtor_loop (Some (ASTNode nt f l op kids nx t lv d)) =
     ASTNode nt f l op kids None t lv d # dtor_loop nx"

definition list_max :: "nat list \<Rightarrow> nat" where
  "list_max xs = fold max xs 0"

lemma size_dtor_loop: "s \<in> set (dtor_loop c) \<Longrightarrow> size_option size (Some s) \<le> size_option size c"
proof (induction c arbitrary: s rule: dtor_loop.induct)
  case 1
  then show ?case by simp
next
  case (2 nt f l op kids nx t lv d)
  show ?case
  proof (cases "s = ASTNode nt f l op kids None t lv d")
    case True
    then show ?thesis by (cases nx) simp_all
  next
    case False
    then have "s \<in> set (dtor_loop nx)" using "2.prems" by simp
    then have "size_option size (Some s) \<le> size_option size nx" by (rule "2.IH")
    then show ?thesis by simp
  qed
qed

lemma size_owned: "c \<in> set (owned n) \<Longrightarrow> size c < size n"
proof (cases n)
  case (ASTNode nt f l op kids nx t lv d)
  assume c: "c \<in> set (owned n)"
  show ?thesis
  proof (cases "Some c \<in> set kids")
    case True
    then show ?thesis using size_child [of c n] ASTNode by simp
  next
    case False
    then have "compindex n = Some c"
      using c ASTNode by (auto simp: owned_def split: option.splits)
    then have "size c < size d"
      using ASTNode by (cases d) (simp_all add: compindex_def)
    then show ?thesis using ASTNode by simp
  qed
qed

text \<open>
  The number of activations of \<^verbatim>\<open>~ASTNode\<close> that are on the stack at once while a
  node that nothing else references is destroyed: the destructor itself, and above it
  either the destructor of a sibling released by the loop or, afterwards, the
  destructor of a node that a member releases.
\<close>

function dtor_depth :: "'f ASTNode \<Rightarrow> nat" where
  "dtor_depth n =
     Suc (max (list_max (map dtor_depth (dtor_loop (m_next n))))
              (list_max (map dtor_depth (owned n))))"
  by pat_completeness auto
termination
proof (relation "measure size")
  show "wf (measure size)" by simp
next
  fix n x :: "'f ASTNode"
  assume "x \<in> set (dtor_loop (m_next n))"
  then have "size_option size (Some x) \<le> size_option size (m_next n)"
    by (rule size_dtor_loop)
  then show "(x, n) \<in> measure size" by (cases n) simp
next
  fix n x :: "'f ASTNode"
  assume "x \<in> set (owned n)"
  then show "(x, n) \<in> measure size" by (simp add: size_owned)
qed

text \<open>
  How deeply nodes are nested through owned references, where following a sibling link
  does not count: the height of a node over the chains its members head, and the
  largest height in a chain.
\<close>

lemma size_siblings: "s \<in> set (siblings c) \<Longrightarrow> size_option size (Some s) \<le> size_option size c"
proof (induction c arbitrary: s rule: siblings.induct)
  case 1
  then show ?case by simp
next
  case (2 nt f l op kids nx t lv d)
  then show ?case by fastforce
qed

function node_height :: "'f ASTNode \<Rightarrow> nat" where
  "node_height n =
     (if owned n = [] then 0
      else Suc (list_max (map (\<lambda>c. list_max (map node_height (siblings (Some c)))) (owned n))))"
  by pat_completeness auto
termination
proof (relation "measure size")
  show "wf (measure size)" by simp
next
  fix n c s :: "'f ASTNode"
  assume c: "c \<in> set (owned n)" and s: "s \<in> set (siblings (Some c))"
  have "size c < size n" using c by (rule size_owned)
  moreover have "size_option size (Some s) \<le> size_option size (Some c)"
    using s by (rule size_siblings)
  ultimately show "(s, n) \<in> measure size" by simp
qed

declare dtor_depth.simps [simp del] node_height.simps [simp del]

definition chain_height :: "'f ASTNode option \<Rightarrow> nat" where
  "chain_height c = list_max (map node_height (siblings c))"

text \<open>A chain of \<open>k\<close> nodes without children, for concrete inputs of any length.\<close>

fun leaf_chain :: "nat \<Rightarrow> 'f ASTNode option" where
  "leaf_chain 0 = None"
| "leaf_chain (Suc k) =
     Some (ASTNode unknown_node [] 0 NoOp [] (leaf_chain k) TypeSpec_default False NoData)"

definition leaf_chain_head :: "nat \<Rightarrow> 'f ASTNode" where
  "leaf_chain_head k = ASTNode unknown_node [] 0 NoOp [] (leaf_chain k) TypeSpec_default False NoData"

subsection \<open>What the specification says about integer folding\<close>

text \<open>
  The result the specification calls mathematically defined, on unbounded integers:
  truncating division and the remainder that goes with it (zero for a zero divisor),
  comparisons as 0/1, bitwise operations on the two's-complement reading, shifts as
  multiplication and (flooring) division by a power of two. \<open>None\<close> for the operators
  the claim does not list.
\<close>

definition spec_int_result :: "Operator \<Rightarrow> int \<Rightarrow> int \<Rightarrow> int option" where
  "spec_int_result op a b = (case op of
       Mul \<Rightarrow> Some (a * b)
     | Div \<Rightarrow> Some (if b = 0 then 0 else a sdiv b)
     | Add \<Rightarrow> Some (a + b)
     | Sub \<Rightarrow> Some (a - b)
     | Mod \<Rightarrow> Some (if b = 0 then 0 else a smod b)
     | Equal \<Rightarrow> Some (if a = b then 1 else 0)
     | NotEqual \<Rightarrow> Some (if a \<noteq> b then 1 else 0)
     | Greater \<Rightarrow> Some (if a > b then 1 else 0)
     | GreaterEqual \<Rightarrow> Some (if a \<ge> b then 1 else 0)
     | Less \<Rightarrow> Some (if a < b then 1 else 0)
     | LessEqual \<Rightarrow> Some (if a \<le> b then 1 else 0)
     | BitAnd \<Rightarrow> Some (a AND b)
     | BitOr \<Rightarrow> Some (a OR b)
     | Xor \<Rightarrow> Some (a XOR b)
     | ShiftLeft \<Rightarrow> Some (a * 2 ^ nat b)
     | ShiftRight \<Rightarrow> Some (a div 2 ^ nat b)
     | _ \<Rightarrow> None)"

definition int_representable :: "int \<Rightarrow> bool" where
  "int_representable r = (- (2 ^ 31) \<le> r \<and> r < 2 ^ 31)"

text \<open>
  Where C++ defines the operation on \<^verbatim>\<open>int\<close>: the exact result (for division and
  remainder, the quotient) is representable, and a shift count lies in \<open>0..31\<close>.
\<close>

definition c_defined :: "Operator \<Rightarrow> int \<Rightarrow> int \<Rightarrow> bool" where
  "c_defined op a b = (case op of
       Mul \<Rightarrow> int_representable (a * b)
     | Add \<Rightarrow> int_representable (a + b)
     | Sub \<Rightarrow> int_representable (a - b)
     | Div \<Rightarrow> int_representable (a sdiv b)
     | Mod \<Rightarrow> int_representable (a sdiv b)
     | ShiftLeft \<Rightarrow> 0 \<le> b \<and> b < 32 \<and> int_representable (a * 2 ^ nat b)
     | ShiftRight \<Rightarrow> 0 \<le> b \<and> b < 32
     | _ \<Rightarrow> True)"

subsection \<open>Concrete inputs\<close>

text \<open>
  A compiler instance with an empty symbol table, and a stand-in float arithmetic
  (integers in place of floats), for evaluating the constructors on concrete inputs.
\<close>

definition example_compiler :: Compiler where
  "example_compiler =
     \<lparr>filename = ''test.osl'', lineno = 7,
      symtab = \<lparr>st_entries = [], st_scopeid = 0\<rparr>, diags = []\<rparr>"

definition example_floatops :: "int FloatOps" where
  "example_floatops =
     \<lparr>fl_mul = (*), fl_div = (div), fl_add = (+), fl_sub = (-),
      fl_eq = (=), fl_lt = (<), fl_le = (\<le>), fl_nonzero = (\<lambda>x. x \<noteq> 0), fl_zero = 0,
      fl_of_int = sint\<rparr>"

definition example_env :: "int Env" where
  "example_env =
     \<lparr>type_string = (\<lambda>t. ''type''),
      structspec = (\<lambda>t. None),
      code_from_type = (\<lambda>t. ''x''),
      fs_filename = (\<lambda>p. p),
      typecheck_initlist = (\<lambda>c n t. (n, [])),
      typecheck_function = (\<lambda>c n. (n, [])),
      add_struct_fields = (\<lambda>c t nm k len n i. ([], []))\<rparr>"

text \<open>The compound assignment operators of the grammar.\<close>

definition compound_operators :: "Operator set" where
  "compound_operators = {Add, Mul, Div, Sub, BitAnd, BitOr, Xor, ShiftLeft, ShiftRight}"

text \<open>A reference to a read-only parameter \<open>Kd\<close>, declared at line 3.\<close>

definition example_param :: Symbol where
  "example_param =
     Symbol ''Kd'' TypeFloat SymTypeParam 1
       (Some \<lparr>decl_sourcefile = ''test.osl'', decl_sourceline = 3,
              decl_statements = False, decl_is_builtin = False\<rparr>)
       True [] None"

definition example_var_ref :: "int ASTNode" where
  "example_var_ref =
     ASTNode variable_ref_node ''test.osl'' 7 NoOp [] None TypeFloat False
       (VarRefData ''Kd'' (Some example_param))"

text \<open>A compiler instance whose symbol table holds a type name, a symbol without a declaration node.\<close>

definition example_type_symbol :: Symbol where
  "example_type_symbol =
     Symbol ''Foo'' \<lparr>ts_simple = TD_UNKNOWN, ts_arraylen = 0, ts_structure = 1, ts_closure = False\<rparr>
       SymTypeType 0 None False [] None"

definition example_compiler_with_type :: Compiler where
  "example_compiler_with_type =
     \<lparr>filename = ''test.osl'', lineno = 7,
      symtab = \<lparr>st_entries = [example_type_symbol], st_scopeid = 0\<rparr>, diags = []\<rparr>"

text \<open>A compiler instance whose symbol table holds the parameter \<open>Kd\<close> declared at line 3.\<close>

definition example_compiler_with_param :: Compiler where
  "example_compiler_with_param =
     \<lparr>filename = ''test.osl'', lineno = 7,
      symtab = \<lparr>st_entries = [example_param], st_scopeid = 1\<rparr>, diags = []\<rparr>"

subsection \<open>What the specification says about indexing\<close>

text \<open>
  The table of the specification, by the type of the base and the number of index
  expressions: the resolved type, or \<open>None\<close> for every other combination.
\<close>

definition spec_index_table :: "TypeSpec \<Rightarrow> nat \<Rightarrow> TypeSpec option" where
  "spec_index_table base k =
     (if k = 1 \<and> is_array base then Some (elementtype base)
      else if k = 1 \<and> is_triple base \<and> \<not> is_closure base then Some TypeFloat
      else if k = 2 \<and> is_matrix base then Some TypeFloat
      else if k = 2 \<and> is_array base \<and> is_triple (elementtype base) then Some TypeFloat
      else if k = 3 \<and> is_array base \<and> is_matrix (elementtype base) then Some TypeFloat
      else None)"

text \<open>A reference to a variable \<open>C\<close> of type color, and one to an array of 4 colors.\<close>

definition TypeColor :: TypeSpec where
  "TypeColor = TypeSpec_simple TD_COLOR"

definition example_color_ref :: "int ASTNode" where
  "example_color_ref =
     ASTNode variable_ref_node ''test.osl'' 7 NoOp [] None TypeColor False
       (VarRefData ''C'' None)"

definition example_color_array_ref :: "int ASTNode" where
  "example_color_array_ref =
     ASTNode variable_ref_node ''test.osl'' 7 NoOp [] None (make_array 4 TypeColor) False
       (VarRefData ''Cs'' None)"

subsection \<open>What the specification says about named components\<close>

text \<open>The index of a component name: \<open>r\<close>, \<open>g\<close>, \<open>b\<close> and \<open>x\<close>, \<open>y\<close>, \<open>z\<close> are 0, 1, 2.\<close>

definition spec_component_index :: "string \<Rightarrow> int32" where
  "spec_component_index fl =
     (if fl = ''r'' \<or> fl = ''x'' then 0 else if fl = ''g'' \<or> fl = ''y'' then 1 else 2)"

definition spec_named_component :: "TypeSpec \<Rightarrow> string \<Rightarrow> bool" where
  "spec_named_component t fl =
     (is_color t \<and> (fl = ''r'' \<or> fl = ''g'' \<or> fl = ''b'')
      \<or> is_vectriple t \<and> (fl = ''x'' \<or> fl = ''y'' \<or> fl = ''z''))"

subsection \<open>What the specification says about shader parameters\<close>

text \<open>The errors that a shader declaration owes to one formal parameter, reported at the parameter.\<close>

definition spec_formal_errors :: "'f ASTNode \<Rightarrow> Diag list" where
  "spec_formal_errors v =
     (if init v = None
      then [Error (m_sourcefile v) (m_sourceline v)
              (''shader parameter '' @ squote @ name v @ squote @ '' requires a default initializer'')]
      else [])
     @ (if is_output v \<and> is_unsized_array (m_typespec v)
        then [Error (m_sourcefile v) (m_sourceline v)
                (''shader output parameter '' @ squote @ name v @ squote
                 @ '' can'' @ squote @ ''t be unsized array'')]
        else [])"

text \<open>
  Two formals of a shader: \<open>Kd\<close>, a float parameter without initializer at line 3, and
  \<open>result\<close>, an output parameter at line 4 that is an unsized array of floats and has an
  initializer.
\<close>

definition example_formal_result :: "int ASTNode" where
  "example_formal_result =
     ASTNode variable_declaration_node ''test.osl'' 4 NoOp
       [Some (ASTliteral_float example_compiler 0), None] None (make_array (- 1) TypeFloat) False
       (VarDeclData ''result'' None True True False False)"

definition example_formal_Kd :: "int ASTNode" where
  "example_formal_Kd =
     ASTNode variable_declaration_node ''test.osl'' 3 NoOp [None, None]
       (Some example_formal_result) TypeFloat False
       (VarDeclData ''Kd'' None True False False False)"

text \<open>
  Two formals of a function: \<open>a\<close>, a float parameter with a default initializer at line
  5, followed by \<open>b\<close>, a parameter whose type did not resolve.
\<close>

definition example_formal_b :: "int ASTNode" where
  "example_formal_b =
     ASTNode variable_declaration_node ''test.osl'' 6 NoOp [None, None] None TypeSpec_default False
       (VarDeclData ''b'' None True False False False)"

definition example_formal_a :: "int ASTNode" where
  "example_formal_a =
     ASTNode variable_declaration_node ''test.osl'' 5 NoOp
       [Some (ASTliteral_float example_compiler 1), None]
       (Some example_formal_b) TypeFloat False
       (VarDeclData ''a'' None True False False False)"

section \<open>Properties\<close>

subsection \<open>Signed reading of the 32-bit operations\<close>

lemma sint_wi: "int_representable r \<Longrightarrow> sint (word_of_int r :: int32) = r"
  by (simp add: int_representable_def sint_sbintrunc' signed_take_bit_int_eq_self)

lemma sint_mul:
  "int_representable (sint lv * sint rv) \<Longrightarrow> sint (lv * rv :: int32) = sint lv * sint rv"
  by (simp add: int_representable_def sint_word_mult signed_take_bit_int_eq_self)

lemma sint_add:
  "int_representable (sint lv + sint rv) \<Longrightarrow> sint (lv + rv :: int32) = sint lv + sint rv"
  by (simp add: int_representable_def sint_word_ariths signed_take_bit_int_eq_self)

lemma sint_sub:
  "int_representable (sint lv - sint rv) \<Longrightarrow> sint (lv - rv :: int32) = sint lv - sint rv"
  by (simp add: int_representable_def sint_word_ariths signed_take_bit_int_eq_self)

lemma sint_c_div:
  "int_representable (sint lv sdiv sint rv) \<Longrightarrow> sint (c_div lv rv) = sint lv sdiv sint rv"
  by (simp add: c_div_def sint_wi)

lemma sint_range32: "- (2 ^ 31) \<le> sint (w :: int32) \<and> sint w < 2 ^ 31"
  using sint_range_size [of w] by (simp add: word_size)

lemma smod_representable:
  assumes "sint (rv :: int32) \<noteq> 0"
  shows "int_representable (sint (lv :: int32) smod sint rv)"
proof -
  have "sint lv smod sint rv \<in> {- \<bar>sint rv\<bar> + 1..\<bar>sint rv\<bar> - 1}"
    using assms by (rule smod_int_range)
  moreover have "\<bar>sint rv\<bar> \<le> 2 ^ 31"
    using sint_range32 [of rv] by (simp add: abs_le_iff)
  ultimately show ?thesis
    by (simp add: int_representable_def)
qed

lemma sint_c_mod: "sint rv \<noteq> 0 \<Longrightarrow> sint (c_mod lv rv) = sint lv smod sint rv"
  by (simp add: c_mod_def sint_wi smod_representable)

lemma shift_count_uint:
  assumes "0 \<le> sint (rv :: int32)"
  shows "uint rv = sint rv"
proof -
  have "sint rv < 2 ^ 32" using sint_range32 [of rv] by simp
  then have "take_bit 32 (sint rv) = sint rv"
    using assms by (simp add: take_bit_int_eq_self)
  then show ?thesis by (simp add: uint_sint)
qed

lemma shift_count:
  assumes "0 \<le> sint (rv :: int32)" "sint rv < 32"
  shows "unat (rv AND 31) = nat (sint rv)"
proof -
  have u: "uint rv = sint rv" using assms(1) by (rule shift_count_uint)
  have "uint rv < uint (2 ^ 5 :: int32)" using u assms(2) by simp
  then have lt: "rv < 2 ^ 5" by (simp only: word_less_alt)
  have "rv AND mask 5 = rv" using lt by (rule less_mask_eq)
  then have "rv AND 31 = rv" by (simp add: mask_eq_exp_minus_1)
  then show ?thesis using u by (simp add: unat_eq_nat_uint)
qed

lemma sint_c_shl:
  assumes "0 \<le> sint (rv :: int32)" "sint rv < 32"
    and "int_representable (sint lv * 2 ^ nat (sint rv))"
  shows "sint (c_shl lv rv) = sint lv * 2 ^ nat (sint rv)"
proof -
  have "c_shl lv rv = lv * 2 ^ nat (sint rv)"
    by (simp add: c_shl_def shift_count [OF assms(1,2)] push_bit_eq_mult)
  also have "\<dots> = word_of_int (sint lv * 2 ^ nat (sint rv))"
    by simp
  finally have "c_shl lv rv = word_of_int (sint lv * 2 ^ nat (sint rv))" .
  then show ?thesis using assms(3) by (simp only: sint_wi)
qed

lemma sint_c_shr:
  assumes "0 \<le> sint (rv :: int32)" "sint rv < 32"
  shows "sint (c_shr lv rv) = sint lv div 2 ^ nat (sint rv)"
  by (simp add: c_shr_def shift_count [OF assms] sint_signed_drop_bit_eq drop_bit_eq_div)

lemma sint_eq_iff: "(lv = rv) = (sint (lv::int32) = sint (rv::int32))"
proof
  assume "sint lv = sint rv"
  then have "(word_of_int (sint lv) :: int32) = word_of_int (sint rv)" by simp
  then show "lv = rv" by simp
qed simp

lemma sint_0_iff: "(rv = 0) = (sint (rv::int32) = 0)"
  using sint_eq_iff [of rv 0] by simp

text \<open>Every folded value has the signed reading the operator defines.\<close>

lemma fold_int_sint:
  assumes "spec_int_result op (sint lv) (sint rv) = Some r"
    and "c_defined op (sint lv) (sint rv)"
  shows "map_option sint (fold_int op lv rv) = Some r"
proof (cases op)
  case Mul then show ?thesis using assms
    by (simp add: spec_int_result_def c_defined_def fold_int_def sint_mul)
next
  case Div then show ?thesis using assms
    by (auto simp add: spec_int_result_def c_defined_def fold_int_def sint_c_div sint_0_iff)
next
  case Add then show ?thesis using assms
    by (auto simp add: spec_int_result_def c_defined_def fold_int_def sint_add)
next
  case Sub then show ?thesis using assms
    by (auto simp add: spec_int_result_def c_defined_def fold_int_def sint_sub)
next
  case Mod then show ?thesis using assms
    by (auto simp add: spec_int_result_def c_defined_def fold_int_def sint_c_mod sint_0_iff)
next
  case Equal then show ?thesis using assms
    by (auto simp add: spec_int_result_def fold_int_def sint_eq_iff)
next
  case NotEqual then show ?thesis using assms
    by (auto simp add: spec_int_result_def fold_int_def sint_eq_iff)
next
  case Greater then show ?thesis using assms
    by (auto simp add: spec_int_result_def fold_int_def word_sless_alt)
next
  case Less then show ?thesis using assms
    by (auto simp add: spec_int_result_def fold_int_def word_sless_alt)
next
  case GreaterEqual then show ?thesis using assms
    by (auto simp add: spec_int_result_def fold_int_def word_sle_eq)
next
  case LessEqual then show ?thesis using assms
    by (auto simp add: spec_int_result_def fold_int_def word_sle_eq)
next
  case BitAnd then show ?thesis using assms
    by (auto simp add: spec_int_result_def fold_int_def signed_and_eq)
next
  case BitOr then show ?thesis using assms
    by (auto simp add: spec_int_result_def fold_int_def signed_or_eq)
next
  case Xor then show ?thesis using assms
    by (auto simp add: spec_int_result_def fold_int_def signed_xor_eq)
next
  case ShiftLeft then show ?thesis using assms
    by (auto simp add: spec_int_result_def c_defined_def fold_int_def sint_c_shl)
next
  case ShiftRight then show ?thesis using assms
    by (auto simp add: spec_int_result_def c_defined_def fold_int_def sint_c_shr)
qed (use assms in \<open>simp_all add: spec_int_result_def\<close>)

lemma make_int_literals:
  assumes "nodetype left = literal_node" "nodetype right = literal_node"
    and "is_int (m_typespec left)" "is_int (m_typespec right)"
    and "intval left = Some lv" "intval right = Some rv"
    and "fold_int op lv rv = Some v"
  shows "ASTbinary_expression_make fo cmp op left right = Inr (ASTliteral_int cmp v)"
  using assms by (simp add: ASTbinary_expression_make_def)

lemma nodetype_ASTliteral_int: "nodetype (ASTliteral_int cmp v) = literal_node"
  by (simp add: ASTliteral_int_def set_typespec_def ASTNode_base_def)

lemma typespec_ASTliteral_int: "m_typespec (ASTliteral_int cmp v) = TypeInt"
  by (simp add: ASTliteral_int_def set_typespec_def ASTNode_base_def)

lemma intval_ASTliteral_int: "intval (ASTliteral_int cmp v) = Some v"
  by (simp add: ASTliteral_int_def set_typespec_def ASTNode_base_def intval_def)

lemma is_int_TypeInt: "is_int TypeInt"
  by (simp add: is_int_def is_simple_def TypeInt_def TypeSpec_simple_def)

subsection \<open>Constant folding of integer literals\<close>

text \<open>
  C1, as stated, fails: the folded literal holds a 32-bit \<^verbatim>\<open>int\<close>, and the product
  \<open>65536 * 65536 = 4294967296\<close> is not one. The code folds it to the literal \<open>0\<close>.
\<close>

theorem make_int_fold_overflow:
  "ASTbinary_expression_make example_floatops example_compiler Mul
      (ASTliteral_int example_compiler 65536) (ASTliteral_int example_compiler 65536)
     = Inr (ASTliteral_int example_compiler 0)
   \<and> spec_int_result Mul (sint (65536 :: int32)) (sint (65536 :: int32)) = Some 4294967296
   \<and> sint (0 :: int32) \<noteq> 4294967296"
proof -
  have "(4294967296 :: int32) = word_of_int (2 ^ LENGTH(32))" by simp
  then have wrap: "(4294967296 :: int32) = 0" by (simp only: word_of_int_2p_len)
  show ?thesis
    by (simp add: ASTbinary_expression_make_def nodetype_ASTliteral_int typespec_ASTliteral_int is_int_TypeInt
        intval_ASTliteral_int fold_int_def spec_int_result_def wrap)
qed

text \<open>
  C1, amended: for two int literal nodes holding \<open>lv\<close> and \<open>rv\<close> and each of the sixteen
  operators, whenever C++ defines the operation on \<^verbatim>\<open>int\<close> (the exact result is
  representable in 32 bits, a shift count lies in \<open>0..31\<close>), the folding entry point
  returns an int literal node, not a binary-expression node, whose value is the
  mathematical result \<open>r\<close>; division and modulo by zero give the literal 0.
\<close>

theorem make_int_fold:
  assumes "nodetype left = literal_node" "nodetype right = literal_node"
    and "is_int (m_typespec left)" "is_int (m_typespec right)"
    and "intval left = Some lv" "intval right = Some rv"
    and "spec_int_result op (sint lv) (sint rv) = Some r"
    and "c_defined op (sint lv) (sint rv)"
  shows "\<exists>v. ASTbinary_expression_make fo cmp op left right = Inr (ASTliteral_int cmp v) \<and> sint v = r
     \<and> nodetype (ASTliteral_int cmp v :: 'f ASTNode) = literal_node
     \<and> m_typespec (ASTliteral_int cmp v :: 'f ASTNode) = TypeInt"
proof -
  obtain v where v: "fold_int op lv rv = Some v" "sint v = r"
    using fold_int_sint [OF assms(7,8)] by auto
  have "ASTbinary_expression_make fo cmp op left right = Inr (ASTliteral_int cmp v)"
    using assms(1-6) v(1) by (rule make_int_literals)
  then show ?thesis using v(2)
    by (intro exI [of _ v]) (simp add: nodetype_ASTliteral_int typespec_ASTliteral_int)
qed

theorem make_int_fold_witness:
  "\<exists>v. ASTbinary_expression_make example_floatops example_compiler Div
          (ASTliteral_int example_compiler (- 7)) (ASTliteral_int example_compiler 0)
        = Inr (ASTliteral_int example_compiler v) \<and> sint v = 0"
  using make_int_fold [of "ASTliteral_int example_compiler (- 7)" "ASTliteral_int example_compiler 0"
      "- 7" 0 Div 0 example_floatops example_compiler]
  by (simp add: nodetype_ASTliteral_int typespec_ASTliteral_int is_int_TypeInt
      intval_ASTliteral_int spec_int_result_def c_defined_def int_representable_def)

subsection \<open>The plain binary-expression constructor\<close>

lemma ASTbinary_expression_shape:
  assumes "binary_opword (OperatorOp op) = Inr w"
  shows "\<exists>b. ASTbinary_expression cmp op left right = Inr b
           \<and> nodetype b = binary_expression_node \<and> m_op b = OperatorOp op
           \<and> m_children b = [Some left, Some right]"
  using assms
  by (auto simp: ASTbinary_expression_def Let_def ASTNode_base_def set_data_def
           split: option.splits)

lemma binary_opword_compound:
  assumes "op \<in> compound_operators"
  shows "\<exists>w. binary_opword (OperatorOp op) = Inr w"
  using assms by (auto simp: compound_operators_def binary_opword_def)

lemma nodetype_ASTliteral_float: "nodetype (ASTliteral_float cmp v) = literal_node"
  by (simp add: ASTliteral_float_def set_typespec_def ASTNode_base_def)

lemma typespec_ASTliteral_float: "m_typespec (ASTliteral_float cmp v) = TypeFloat"
  by (simp add: ASTliteral_float_def set_typespec_def ASTNode_base_def)

lemma is_float_TypeFloat: "is_float TypeFloat"
  by (simp add: is_float_def is_simple_def TypeFloat_def TypeSpec_simple_def)

lemma floatval_ASTliteral_float: "floatval fo (ASTliteral_float cmp v) = Some v"
  by (simp add: ASTliteral_float_def set_typespec_def ASTNode_base_def floatval_def
      is_int_def is_simple_def TypeFloat_def TypeSpec_simple_def)

lemma is_float_not_int: "is_float t \<Longrightarrow> \<not> is_int t"
  by (simp add: is_float_def is_int_def is_simple_def)

subsection \<open>Constant folding of float literals\<close>

lemma make_float_literals:
  assumes "nodetype left = literal_node" "nodetype right = literal_node"
    and "is_float (m_typespec left)" "is_float (m_typespec right)"
    and "floatval fo left = Some lv" "floatval fo right = Some rv"
  shows "ASTbinary_expression_make fo cmp op left right =
           (case fold_float fo cmp op lv rv of
              Some cf \<Rightarrow> Inr cf
            | None \<Rightarrow> ASTbinary_expression cmp op left right)"
  using assms by (simp add: ASTbinary_expression_make_def is_float_not_int)

text \<open>
  C2: for two float literal nodes holding \<open>lv\<close> and \<open>rv\<close>, the folding entry point returns
  a literal node for multiply, divide, add, subtract (a float literal; a zero divisor
  gives the literal \<open>0.0\<close>) and for the six comparisons (the int literal 1 or 0); for
  the bitwise and shift operators it returns the node of the plain constructor, a
  binary-expression node with the two literals as children.
\<close>

theorem make_float_fold:
  assumes "nodetype left = literal_node" "nodetype right = literal_node"
    and "is_float (m_typespec left)" "is_float (m_typespec right)"
    and "floatval fo left = Some lv" "floatval fo right = Some rv"
  shows "ASTbinary_expression_make fo cmp Mul left right = Inr (ASTliteral_float cmp (fl_mul fo lv rv))
     \<and> ASTbinary_expression_make fo cmp Div left right =
         Inr (ASTliteral_float cmp (if fl_nonzero fo rv then fl_div fo lv rv else fl_zero fo))
     \<and> ASTbinary_expression_make fo cmp Add left right = Inr (ASTliteral_float cmp (fl_add fo lv rv))
     \<and> ASTbinary_expression_make fo cmp Sub left right = Inr (ASTliteral_float cmp (fl_sub fo lv rv))
     \<and> ASTbinary_expression_make fo cmp Equal left right =
         Inr (ASTliteral_int cmp (if fl_eq fo lv rv then 1 else 0))
     \<and> ASTbinary_expression_make fo cmp NotEqual left right =
         Inr (ASTliteral_int cmp (if fl_eq fo lv rv then 0 else 1))
     \<and> ASTbinary_expression_make fo cmp Greater left right =
         Inr (ASTliteral_int cmp (if fl_lt fo rv lv then 1 else 0))
     \<and> ASTbinary_expression_make fo cmp GreaterEqual left right =
         Inr (ASTliteral_int cmp (if fl_le fo rv lv then 1 else 0))
     \<and> ASTbinary_expression_make fo cmp Less left right =
         Inr (ASTliteral_int cmp (if fl_lt fo lv rv then 1 else 0))
     \<and> ASTbinary_expression_make fo cmp LessEqual left right =
         Inr (ASTliteral_int cmp (if fl_le fo lv rv then 1 else 0))
     \<and> nodetype (ASTliteral_float cmp x :: 'f ASTNode) = literal_node
     \<and> nodetype (ASTliteral_int cmp i :: 'f ASTNode) = literal_node
     \<and> (op \<in> {BitAnd, BitOr, Xor, ShiftLeft, ShiftRight} \<longrightarrow>
          (\<exists>b. ASTbinary_expression_make fo cmp op left right = Inr b
             \<and> nodetype b = binary_expression_node \<and> m_op b = OperatorOp op
             \<and> m_children b = [Some left, Some right]))"
proof -
  note mk = make_float_literals [OF assms]
  have arith: "ASTbinary_expression_make fo cmp Mul left right = Inr (ASTliteral_float cmp (fl_mul fo lv rv))"
    "ASTbinary_expression_make fo cmp Div left right =
         Inr (ASTliteral_float cmp (if fl_nonzero fo rv then fl_div fo lv rv else fl_zero fo))"
    "ASTbinary_expression_make fo cmp Add left right = Inr (ASTliteral_float cmp (fl_add fo lv rv))"
    "ASTbinary_expression_make fo cmp Sub left right = Inr (ASTliteral_float cmp (fl_sub fo lv rv))"
    by (simp_all add: mk fold_float_def)
  have cmps: "ASTbinary_expression_make fo cmp Equal left right =
         Inr (ASTliteral_int cmp (if fl_eq fo lv rv then 1 else 0))"
    "ASTbinary_expression_make fo cmp NotEqual left right =
         Inr (ASTliteral_int cmp (if fl_eq fo lv rv then 0 else 1))"
    "ASTbinary_expression_make fo cmp Greater left right =
         Inr (ASTliteral_int cmp (if fl_lt fo rv lv then 1 else 0))"
    "ASTbinary_expression_make fo cmp GreaterEqual left right =
         Inr (ASTliteral_int cmp (if fl_le fo rv lv then 1 else 0))"
    "ASTbinary_expression_make fo cmp Less left right =
         Inr (ASTliteral_int cmp (if fl_lt fo lv rv then 1 else 0))"
    "ASTbinary_expression_make fo cmp LessEqual left right =
         Inr (ASTliteral_int cmp (if fl_le fo lv rv then 1 else 0))"
    by (simp_all add: mk fold_float_def)
  have bits: "\<exists>b. ASTbinary_expression_make fo cmp op left right = Inr b
             \<and> nodetype b = binary_expression_node \<and> m_op b = OperatorOp op
             \<and> m_children b = [Some left, Some right]"
    if "op \<in> {BitAnd, BitOr, Xor, ShiftLeft, ShiftRight}"
  proof -
    have "fold_float fo cmp op lv rv = None"
      using that by (auto simp: fold_float_def)
    then have "ASTbinary_expression_make fo cmp op left right = ASTbinary_expression cmp op left right"
      by (simp add: mk)
    moreover have "\<exists>w. binary_opword (OperatorOp op) = Inr w"
      using that by (auto simp: binary_opword_def)
    ultimately show ?thesis
      using ASTbinary_expression_shape [of op _ cmp left right] by auto
  qed
  show ?thesis
    using arith cmps bits
    by (simp add: nodetype_ASTliteral_float nodetype_ASTliteral_int)
qed

theorem make_float_fold_witness:
  "ASTbinary_expression_make example_floatops example_compiler Div
       (ASTliteral_float example_compiler 6) (ASTliteral_float example_compiler 0)
     = Inr (ASTliteral_float example_compiler 0)
   \<and> (\<exists>b. ASTbinary_expression_make example_floatops example_compiler ShiftLeft
             (ASTliteral_float example_compiler 6) (ASTliteral_float example_compiler 0) = Inr b
          \<and> nodetype b = binary_expression_node
          \<and> m_children b = [Some (ASTliteral_float example_compiler 6),
                             Some (ASTliteral_float example_compiler 0)])"
proof -
  let ?l = "ASTliteral_float example_compiler 6 :: int ASTNode"
  let ?r = "ASTliteral_float example_compiler 0 :: int ASTNode"
  have "nodetype ?l = literal_node" "nodetype ?r = literal_node"
    "is_float (m_typespec ?l)" "is_float (m_typespec ?r)"
    "floatval example_floatops ?l = Some 6" "floatval example_floatops ?r = Some 0"
    by (simp_all add: nodetype_ASTliteral_float typespec_ASTliteral_float is_float_TypeFloat
        floatval_ASTliteral_float)
  from make_float_fold [OF this, where cmp = example_compiler and op = ShiftLeft and x = 0 and i = 0]
  show ?thesis by (auto simp add: example_floatops_def)
qed

subsection \<open>Compound assignment\<close>

lemma ASTassign_expression_compound:
  assumes "op \<noteq> Assign" and "ASTbinary_expression cmp op var expr = Inr b"
  shows "ASTassign_expression cmp var op expr =
           (case check_symbol_writeability
                   (ASTNode assign_expression_node (filename cmp) (lineno cmp) (OperatorOp Assign)
                      [Some var, Some b] None TypeSpec_default False NoData) var False cmp of
              Inl e \<Rightarrow> Inl e
            | Inr (w, cmp') \<Rightarrow>
                Inr (ASTNode assign_expression_node (filename cmp) (lineno cmp) (OperatorOp Assign)
                       [Some var, Some b] None TypeSpec_default False NoData, cmp'))"
  using assms
  by (simp add: ASTassign_expression_def Let_def ASTNode_base_def set_op_def set_children_def
           split: sum.splits prod.splits)

lemma compound_not_Assign: "op \<in> compound_operators \<Longrightarrow> op \<noteq> Assign"
  by (auto simp: compound_operators_def)

text \<open>
  C3: for a compound operator the constructor builds the binary expression \<open>b\<close> of the
  base operator over the original target \<open>var\<close> and source \<open>expr\<close>; the assignment node
  has the operator code of plain assignment and the children \<open>var\<close> and \<open>b\<close>; and what
  the constructor returns is decided by the writeability check of the original \<open>var\<close>,
  whose warnings are the only diagnostics.
\<close>

theorem assign_compound_desugared:
  assumes "op \<in> compound_operators"
  shows "\<exists>b. ASTbinary_expression cmp op var expr = Inr b
           \<and> nodetype b = binary_expression_node \<and> m_op b = OperatorOp op
           \<and> m_children b = [Some var, Some expr]
           \<and> ASTassign_expression cmp var op expr =
               (case check_symbol_writeability
                       (ASTNode assign_expression_node (filename cmp) (lineno cmp)
                          (OperatorOp Assign) [Some var, Some b] None TypeSpec_default False NoData)
                       var False cmp of
                  Inl e \<Rightarrow> Inl e
                | Inr (w, cmp') \<Rightarrow>
                    Inr (ASTNode assign_expression_node (filename cmp) (lineno cmp)
                           (OperatorOp Assign) [Some var, Some b] None TypeSpec_default False NoData,
                         cmp'))"
proof -
  obtain w where "binary_opword (OperatorOp op) = Inr w"
    using binary_opword_compound [OF assms] by blast
  then obtain b where b: "ASTbinary_expression cmp op var expr = Inr b"
    "nodetype b = binary_expression_node" "m_op b = OperatorOp op"
    "m_children b = [Some var, Some expr]"
    using ASTbinary_expression_shape [of op w cmp var expr] by blast
  show ?thesis
    using b ASTassign_expression_compound [OF compound_not_Assign [OF assms] b(1)]
    by (intro exI [of _ b]) simp
qed

theorem assign_compound_desugared_witness:
  "\<exists>b. ASTbinary_expression example_compiler Add example_var_ref
            (ASTliteral_float example_compiler 1) = Inr b
      \<and> m_children b = [Some example_var_ref, Some (ASTliteral_float example_compiler 1)]
      \<and> ASTassign_expression example_compiler example_var_ref Add
            (ASTliteral_float example_compiler 1)
          = Inr (ASTNode assign_expression_node ''test.osl'' 7 (OperatorOp Assign)
                   [Some example_var_ref, Some b] None TypeSpec_default False NoData,
                 example_compiler\<lparr>diags :=
                   [Warning ''test.osl'' 7
                      (''cannot write to non-output parameter '' @ dquote @ ''Kd'' @ dquote)]\<rparr>)"
proof -
  have "Add \<in> compound_operators" by (simp add: compound_operators_def)
  from assign_compound_desugared [OF this, of example_compiler example_var_ref
      "ASTliteral_float example_compiler 1"]
  obtain b where b: "ASTbinary_expression example_compiler Add example_var_ref
            (ASTliteral_float example_compiler 1) = Inr b"
      "m_children b = [Some example_var_ref, Some (ASTliteral_float example_compiler 1)]"
      "ASTassign_expression example_compiler example_var_ref Add
            (ASTliteral_float example_compiler 1) =
               (case check_symbol_writeability
                       (ASTNode assign_expression_node (filename example_compiler)
                          (lineno example_compiler)
                          (OperatorOp Assign) [Some example_var_ref, Some b] None
                          TypeSpec_default False NoData)
                       example_var_ref False example_compiler of
                  Inl e \<Rightarrow> Inl e
                | Inr (w, cmp') \<Rightarrow>
                    Inr (ASTNode assign_expression_node (filename example_compiler)
                           (lineno example_compiler)
                           (OperatorOp Assign) [Some example_var_ref, Some b] None
                           TypeSpec_default False NoData,
                         cmp'))"
    by blast
  show ?thesis
    using b
    by (intro exI [of _ b])
       (simp add: example_var_ref_def example_param_def sym_def warningfmt_def report_def
          example_compiler_def)
qed

lemma check_symbol_writeability_literal:
  assumes "nodetype v = literal_node"
  shows "check_symbol_writeability this v quiet cmp = Inr (True, cmp)"
  using assms by (cases v) simp

text \<open>
  C10: the right-hand child of a desugared compound assignment is the node of the plain
  constructor. Whenever the constructor returns, its second child is a
  binary-expression node over the original operands; and over two int literals, or two
  float literals, it does return such a node, where the folding entry point returns a
  literal.
\<close>

theorem compound_assign_not_folded:
  assumes "op \<in> compound_operators"
  shows "(ASTassign_expression cmp var op expr = Inr (n :: 'f ASTNode, cmp') \<longrightarrow>
           (\<exists>b. child n 1 = Some b \<and> nodetype b = binary_expression_node
               \<and> nodetype b \<noteq> literal_node
               \<and> m_children b = [Some var, Some expr]
               \<and> ASTbinary_expression cmp op var expr = Inr b))
       \<and> (\<exists>n1 b1. ASTassign_expression cmp (ASTliteral_int cmp i) op (ASTliteral_int cmp j)
                     = Inr (n1 :: 'f ASTNode, cmp)
               \<and> child n1 1 = Some b1 \<and> nodetype b1 = binary_expression_node)
       \<and> (\<exists>n2 b2. ASTassign_expression cmp (ASTliteral_float cmp x) op (ASTliteral_float cmp y)
                     = Inr (n2 :: 'f ASTNode, cmp)
               \<and> child n2 1 = Some b2 \<and> nodetype b2 = binary_expression_node)"
proof -
  have na: "op \<noteq> Assign" using assms by (rule compound_not_Assign)
  obtain w where w: "binary_opword (OperatorOp op) = Inr w"
    using binary_opword_compound [OF assms] by blast
  have general: "\<exists>b. child n 1 = Some b \<and> nodetype b = binary_expression_node
               \<and> nodetype b \<noteq> literal_node
               \<and> m_children b = [Some var, Some expr]
               \<and> ASTbinary_expression cmp op var expr = Inr b"
    if r: "ASTassign_expression cmp var op expr = Inr (n, cmp')"
    for var expr :: "'f ASTNode" and n cmp'
  proof -
    obtain b where b: "ASTbinary_expression cmp op var expr = Inr b"
      "nodetype b = binary_expression_node" "m_children b = [Some var, Some expr]"
      using ASTbinary_expression_shape [OF w, of cmp var expr] by blast
    have "child n 1 = Some b"
      using r ASTassign_expression_compound [OF na b(1)]
      by (auto simp: child_def split: sum.splits prod.splits)
    then show ?thesis using b by simp
  qed
  have literal: "\<exists>n1 b1. ASTassign_expression cmp var op expr = Inr (n1, cmp)
               \<and> child n1 1 = Some b1 \<and> nodetype b1 = binary_expression_node"
    if v: "nodetype var = literal_node"
    for var expr :: "'f ASTNode"
  proof -
    obtain b where b: "ASTbinary_expression cmp op var expr = Inr b"
      "nodetype b = binary_expression_node"
      using ASTbinary_expression_shape [OF w, of cmp var expr] by blast
    have "ASTassign_expression cmp var op expr =
            Inr (ASTNode assign_expression_node (filename cmp) (lineno cmp) (OperatorOp Assign)
                   [Some var, Some b] None TypeSpec_default False NoData, cmp)"
      using ASTassign_expression_compound [OF na b(1)]
      by (simp add: check_symbol_writeability_literal [OF v])
    then show ?thesis using b(2) by (simp add: child_def)
  qed
  show ?thesis
    using general [of var expr n cmp']
      literal [of "ASTliteral_int cmp i" "ASTliteral_int cmp j"]
      literal [of "ASTliteral_float cmp x" "ASTliteral_float cmp y"]
    by (simp add: nodetype_ASTliteral_int nodetype_ASTliteral_float)
qed

theorem compound_assign_not_folded_witness:
  "(\<exists>n1 b1. ASTassign_expression example_compiler (ASTliteral_int example_compiler 2) Mul
                (ASTliteral_int example_compiler 3) = Inr (n1 :: int ASTNode, example_compiler)
          \<and> child n1 1 = Some b1 \<and> nodetype b1 = binary_expression_node)
   \<and> ASTbinary_expression_make example_floatops example_compiler Mul
        (ASTliteral_int example_compiler 2) (ASTliteral_int example_compiler 3)
       = Inr (ASTliteral_int example_compiler 6)"
proof -
  have "Mul \<in> compound_operators" by (simp add: compound_operators_def)
  from compound_assign_not_folded [OF this, where cmp = example_compiler and i = 2 and j = 3
      and var = "ASTliteral_int example_compiler 2" and expr = "ASTliteral_int example_compiler 3"
      and n = "ASTliteral_int example_compiler 2" and cmp' = example_compiler and x = 0 and y = 0]
  have "\<exists>n1 b1. ASTassign_expression example_compiler (ASTliteral_int example_compiler 2) Mul
                (ASTliteral_int example_compiler 3) = Inr (n1 :: int ASTNode, example_compiler)
          \<and> child n1 1 = Some b1 \<and> nodetype b1 = binary_expression_node"
    by (rule conjunct1 [OF conjunct2])
  moreover have "ASTbinary_expression_make example_floatops example_compiler Mul
        (ASTliteral_int example_compiler 2) (ASTliteral_int example_compiler 3)
       = Inr (ASTliteral_int example_compiler 6)"
    by (simp add: ASTbinary_expression_make_def nodetype_ASTliteral_int typespec_ASTliteral_int
        is_int_TypeInt intval_ASTliteral_int fold_int_def)
  ultimately show ?thesis by simp
qed

subsection \<open>Redeclaration of a variable\<close>

lemma diags_errorfmt: "diags (errorfmt n msg cmp) = diags cmp @ [Error (m_sourcefile n) (m_sourceline n) msg]"
  by (simp add: errorfmt_def report_def)

lemma diags_warningfmt: "diags (warningfmt n msg cmp) = diags cmp @ [Warning (m_sourcefile n) (m_sourceline n) msg]"
  by (simp add: warningfmt_def report_def)

lemma symtab_errorfmt: "symtab (errorfmt n msg cmp) = symtab cmp"
  by (simp add: errorfmt_def report_def)

lemma symtab_warningfmt: "symtab (warningfmt n msg cmp) = symtab cmp"
  by (simp add: warningfmt_def report_def)

lemma diags_report_all: "diags (report_all ds cmp) = diags cmp @ ds"
  by (simp add: report_all_def)

lemma symtab_report_all: "symtab (report_all ds cmp) = symtab cmp"
  by (simp add: report_all_def)

lemma diags_insert_symbol: "diags (insert_symbol s cmp) = diags cmp"
  by (simp add: insert_symbol_def)

lemma diags_fold_insert_symbol: "diags (fold insert_symbol ss cmp) = diags cmp"
  by (induction ss arbitrary: cmp) (simp_all add: diags_insert_symbol)

lemma location_set_typespec:
  "m_sourcefile (set_typespec t n) = m_sourcefile n" "m_sourceline (set_typespec t n) = m_sourceline n"
  by (cases n; simp add: set_typespec_def)+

lemma location_set_data:
  "m_sourcefile (set_data d n) = m_sourcefile n" "m_sourceline (set_data d n) = m_sourceline n"
  by (cases n; simp add: set_data_def)+

lemma location_set_children:
  "m_sourcefile (set_children k n) = m_sourcefile n" "m_sourceline (set_children k n) = m_sourceline n"
  by (cases n; simp add: set_children_def)+

lemma report_all_Nil: "report_all [] cmp = cmp"
  by (simp add: report_all_def)

lemma vardecl_typecheck_initlist_ok:
  assumes "initlist \<Longrightarrow> ini = None \<or> nodetype (the ini) = compound_initializer_node"
  shows "\<exists>n2. vardecl_typecheck_initlist env cmp type ini initlist n
                 = Inr (n2, report_all
                              (case ini of
                                 Some i \<Rightarrow> if initlist then snd (typecheck_initlist env cmp i type) else []
                               | None \<Rightarrow> []) cmp)
              \<and> m_sourcefile n2 = m_sourcefile n \<and> m_sourceline n2 = m_sourceline n"
proof (cases ini)
  case None
  then show ?thesis by (simp add: vardecl_typecheck_initlist_def report_all_Nil)
next
  case (Some i)
  show ?thesis
  proof (cases initlist)
    case False
    then show ?thesis using Some by (simp add: vardecl_typecheck_initlist_def report_all_Nil)
  next
    case True
    then have "nodetype i = compound_initializer_node" using assms Some by simp
    then show ?thesis using Some True
      by (simp add: vardecl_typecheck_initlist_def case_prod_beta location_set_children)
  qed
qed

text \<open>
  C4, as stated, fails: a clashing symbol that has no declaration node (here the name of
  a structure type) is reported with a message that carries no file and no line.
\<close>

theorem variable_redeclaration_without_location:
  "map_sum id (\<lambda>r. diags (snd r))
     (ASTvariable_declaration example_env example_compiler_with_type TypeFloat ''Foo'' None
        False False False False (- 1))
   = Inr [Error ''test.osl'' 7 (dquote @ ''Foo'' @ dquote @ '' already declared in this scope'')]"
  by (simp add: ASTvariable_declaration_def example_env_def example_compiler_with_type_def
      example_type_symbol_def symtab_clash_def Let_def already_declared_msg_def
      vardecl_typecheck_initlist_def vardecl_redeclaration_check_def vardecl_symtype_def
      diags_errorfmt starts_with_def is_structure_def is_structure_array_def is_array_def
      TypeFloat_def TypeSpec_simple_def insert_symbol_def ASTNode_base_def
      location_set_typespec set_typespec_def)

text \<open>
  C4, amended: constructing a non-metadata variable declaration whose name clashes with
  a symbol \<open>f\<close> reports, at the new declaration's location, one diagnostic with the
  message ``"name" already declared in this scope'', followed by the previous
  declaration's file name and line when \<open>f\<close> has a declaration node (and by nothing when
  it has none). The diagnostic is a warning when \<open>f\<close> is a function of scope 0 and the
  new declaration is a parameter, and an error otherwise. Around it stand only the
  diagnostics of the early initializer-list check, the three-underscores error and those
  of the struct-field collaborator.
\<close>

theorem variable_redeclaration_reported:
  assumes "symtab_clash (symtab cmp) nm = Some f" and "\<not> ismeta"
    and "initlist \<Longrightarrow> ini = None \<or> nodetype (the ini) = compound_initializer_node"
  shows "\<exists>n cmp' struct_ds.
           ASTvariable_declaration env cmp type nm ini isparam ismeta isoutput initlist sl
             = Inr (n, cmp')
         \<and> diags cmp' =
             diags cmp
             @ (case ini of
                  Some i \<Rightarrow> if initlist then snd (typecheck_initlist env cmp i type) else []
                | None \<Rightarrow> [])
             @ [(if sym_scope f = 0 \<and> sym_symtype f = SymTypeFunction \<and> isparam
                 then Warning else Error)
                  (m_sourcefile n) (m_sourceline n)
                  (dquote @ nm @ dquote @ '' already declared in this scope''
                   @ (case sym_node f of
                        Some d \<Rightarrow> [CHR 0x0A, CHR 0x09, CHR 0x09] @ ''previous declaration was at ''
                                   @ fs_filename env (decl_sourcefile d) @ '':''
                                   @ format_int (decl_sourceline d)
                      | None \<Rightarrow> []))]
             @ (if starts_with nm ''___''
                then [Error (m_sourcefile n) (m_sourceline n) (three_underscores_msg nm)] else [])
             @ struct_ds
         \<and> (if is_structure type \<or> is_structure_array type then True else struct_ds = [])"
proof -
  let ?n1 = "(if sl \<ge> 0
              then set_sourceline sl
                     (ASTNode_base variable_declaration_node cmp NoOp [ini, None]
                        (VarDeclData nm None isparam isoutput False initlist))
              else ASTNode_base variable_declaration_node cmp NoOp [ini, None]
                     (VarDeclData nm None isparam isoutput False initlist))"
  let ?tc = "(case ini of
                  Some i \<Rightarrow> if initlist then snd (typecheck_initlist env cmp i type) else []
                | None \<Rightarrow> [])"
  obtain n2 where s1: "vardecl_typecheck_initlist env cmp type ini initlist ?n1
                         = Inr (n2, report_all ?tc cmp)"
    using vardecl_typecheck_initlist_ok [OF assms(3), where env = env and cmp = cmp
        and type = type and n = ?n1]
    by blast
  let ?n3 = "set_typespec type n2"
  let ?D = "\<lambda>n :: 'a ASTNode. (if sym_scope f = 0 \<and> sym_symtype f = SymTypeFunction \<and> isparam
                 then Warning else Error)
                  (m_sourcefile n) (m_sourceline n)
                  (dquote @ nm @ dquote @ '' already declared in this scope''
                   @ (case sym_node f of
                        Some d \<Rightarrow> [CHR 0x0A, CHR 0x09, CHR 0x09] @ ''previous declaration was at ''
                                   @ fs_filename env (decl_sourcefile d) @ '':''
                                   @ format_int (decl_sourceline d)
                      | None \<Rightarrow> []))"
  let ?us = "\<lambda>n :: 'a ASTNode. (if starts_with nm ''___''
                then [Error (m_sourcefile n) (m_sourceline n) (three_underscores_msg nm)] else [])"
  let ?cmp2 = "vardecl_redeclaration_check env nm False isparam ?n3 (report_all ?tc cmp)"
  have msg: "already_declared_msg env nm f =
      dquote @ nm @ dquote @ '' already declared in this scope''
                   @ (case sym_node f of
                        Some d \<Rightarrow> [CHR 0x0A, CHR 0x09, CHR 0x09] @ ''previous declaration was at ''
                                   @ fs_filename env (decl_sourcefile d) @ '':''
                                   @ format_int (decl_sourceline d)
                      | None \<Rightarrow> [])"
    by (simp add: already_declared_msg_def Let_def split: option.splits)
  have d2: "diags ?cmp2 = diags cmp @ ?tc @ [?D ?n3]"
    using assms(1)
    by (simp add: vardecl_redeclaration_check_def symtab_report_all Let_def msg
          diags_errorfmt diags_warningfmt diags_report_all)
  let ?cmp3 = "(if starts_with nm ''___''
                 then errorfmt ?n3 (three_underscores_msg nm) ?cmp2 else ?cmp2)"
  have d3: "diags ?cmp3 = diags cmp @ ?tc @ [?D ?n3] @ ?us ?n3"
    by (simp add: d2 diags_errorfmt)
  let ?symtype = "vardecl_symtype nm isparam isoutput"
  let ?fresh = "Symbol_new nm type ?symtype (declref ?n3 False False)"
  let ?scoped = "with_scope (st_scopeid (symtab ?cmp3)) ?fresh"
  let ?cmp4 = "insert_symbol ?fresh ?cmp3"
  let ?n4 = "set_data (VarDeclData nm (Some ?scoped) isparam isoutput False initlist) ?n3"
  have l4: "m_sourcefile ?n4 = m_sourcefile ?n3" "m_sourceline ?n4 = m_sourceline ?n3"
    by (simp_all add: location_set_data)
  have d4: "diags ?cmp4 = diags cmp @ ?tc @ [?D ?n4] @ ?us ?n4"
    by (simp only: diags_insert_symbol d3 l4)
  have im: "ismeta = False" using assms(2) by simp
  show ?thesis
  proof (cases "is_structure type \<or> is_structure_array type")
    case False
    have res: "ASTvariable_declaration env cmp type nm ini isparam ismeta isoutput initlist sl
            = Inr (?n4, ?cmp4)"
      using False
      by (simp add: im ASTvariable_declaration_def Let_def s1 split del: if_split)
    have dd: "diags ?cmp4 = diags cmp @ ?tc @ [?D ?n4] @ ?us ?n4 @ []"
      using d4 by simp
    show ?thesis
    proof (intro exI conjI)
      show "ASTvariable_declaration env cmp type nm ini isparam ismeta isoutput initlist sl
            = Inr (?n4, ?cmp4)" by (rule res)
      show "diags ?cmp4 = diags cmp @ ?tc @ [?D ?n4] @ ?us ?n4 @ []" by (rule dd)
      show "if is_structure type \<or> is_structure_array type then True else [] = ([] :: Diag list)"
        by simp
    qed
  next
    case True
    obtain fields ds where sf:
      "add_struct_fields env ?cmp4 type (sym_name ?scoped) ?symtype
         (if is_unsized_array type then - 1 else arraylength type) ?n4 (init ?n4) = (fields, ds)"
      by (cases "add_struct_fields env ?cmp4 type (sym_name ?scoped) ?symtype
         (if is_unsized_array type then - 1 else arraylength type) ?n4 (init ?n4)") blast
    let ?cmp5 = "report_all ds (fold insert_symbol fields ?cmp4)"
    have res: "ASTvariable_declaration env cmp type nm ini isparam ismeta isoutput initlist sl
            = Inr (?n4, ?cmp5)"
      using True sf
      by (simp add: im ASTvariable_declaration_def Let_def s1 split del: if_split)
    have dd: "diags ?cmp5 = diags cmp @ ?tc @ [?D ?n4] @ ?us ?n4 @ ds"
      by (simp only: diags_report_all diags_fold_insert_symbol d4 append_assoc)
    show ?thesis
    proof (intro exI conjI)
      show "ASTvariable_declaration env cmp type nm ini isparam ismeta isoutput initlist sl
            = Inr (?n4, ?cmp5)" by (rule res)
      show "diags ?cmp5 = diags cmp @ ?tc @ [?D ?n4] @ ?us ?n4 @ ds" by (rule dd)
      show "if is_structure type \<or> is_structure_array type then True else ds = []"
        using True by simp
    qed
  qed
qed

theorem variable_redeclaration_reported_witness:
  "\<exists>n cmp'.
      ASTvariable_declaration example_env example_compiler_with_param TypeFloat ''Kd'' None
         False False False False (- 1) = Inr (n, cmp')
    \<and> diags cmp' =
        [Error ''test.osl'' 7
           (dquote @ ''Kd'' @ dquote @ '' already declared in this scope''
            @ [CHR 0x0A, CHR 0x09, CHR 0x09] @ ''previous declaration was at test.osl:3'')]"
proof -
  have c: "symtab_clash (symtab example_compiler_with_param) ''Kd'' = Some example_param"
    by (simp add: symtab_clash_def example_compiler_with_param_def example_param_def)
  have nm: "\<not> False" by simp
  have il: "False \<Longrightarrow> (None :: int ASTNode option) = None \<or> nodetype (the None :: int ASTNode) = compound_initializer_node"
    by simp
  from variable_redeclaration_reported [OF c nm il, where env = example_env and type = TypeFloat
      and isparam = False and isoutput = False and sl = "- 1"]
  show ?thesis
    by (simp add: ASTvariable_declaration_def example_env_def example_compiler_with_param_def
      example_param_def symtab_clash_def Let_def already_declared_msg_def
      vardecl_typecheck_initlist_def vardecl_redeclaration_check_def vardecl_symtype_def
      diags_errorfmt starts_with_def is_structure_def is_structure_array_def is_array_def
      TypeFloat_def TypeSpec_simple_def insert_symbol_def ASTNode_base_def
      location_set_typespec set_typespec_def format_int_def digit_char_def)
qed

subsection \<open>Indexing\<close>

lemma index_typespec_table:
  "index_typespec et has2 has3 =
     (case spec_index_table et (if \<not> has2 then 1 else if \<not> has3 then 2 else 3) of
        Some t \<Rightarrow> t
      | None \<Rightarrow> TypeSpec_default)"
  by (simp add: index_typespec_def spec_index_table_def)

lemma is_unknown_default: "is_unknown TypeSpec_default"
  by (simp add: is_unknown_def)

lemma TypeFloat_known: "\<not> is_unknown TypeFloat"
  by (simp add: is_unknown_def TypeFloat_def TypeSpec_default_def TypeSpec_simple_def)

lemma typespec_set_typespec: "m_typespec (set_typespec t n) = t"
  by (cases n) (simp add: set_typespec_def)

lemma children_set_typespec: "m_children (set_typespec t n) = m_children n"
  by (cases n) (simp add: set_typespec_def)

lemma children_set_children: "m_children (set_children k n) = k"
  by (cases n) (simp add: set_children_def)

lemma nodetype_set_typespec: "nodetype (set_typespec t n) = nodetype n"
  by (cases n) (simp add: set_typespec_def)

lemma nodetype_set_children: "nodetype (set_children k n) = nodetype n"
  by (cases n) (simp add: set_children_def)

text \<open>
  The constructor in one equation: the children after the optional flattening, the type
  from the code's chain of tests on the base \<open>e\<close> that the node ends up with.
\<close>

lemma ASTindex_result:
  assumes "(if index2 = None \<and> nodetype expr = index_node \<and> nchildren expr = 2
            then child expr 0 else Some expr) = Some e"
  shows "\<exists>n. ASTindex cmp expr index index2 index3 =
               Inr (n, if is_unknown (m_typespec n)
                       then errorfmt n ''indexing into non-array or non-component type'' cmp
                       else cmp)
           \<and> nodetype n = index_node
           \<and> m_sourcefile n = filename cmp \<and> m_sourceline n = lineno cmp
           \<and> m_children n =
               (if index2 = None \<and> nodetype expr = index_node \<and> nchildren expr = 2
                then [child expr 0, child expr 1, Some index]
                else [Some expr, Some index]
                     @ (if index2 \<noteq> None then [index2] else [])
                     @ (if index3 \<noteq> None then [index3] else []))
           \<and> m_typespec n =
               index_typespec (m_typespec e)
                 (index2 \<noteq> None \<or> (nodetype expr = index_node \<and> nchildren expr = 2))
                 (index3 \<noteq> None)"
  using assms
  by (auto simp: ASTindex_def Let_def typespec_set_typespec children_set_typespec
        children_set_children nodetype_set_typespec nodetype_set_children
        location_set_typespec location_set_children ASTNode_base_def
        split: if_splits)

text \<open>
  C5: an index node built over a base and one to three index expressions (in order: a
  third only after a second) has, over the base \<open>e\<close> and the indices it ends up with,
  the type of the specification's table; every other combination leaves the type
  unknown. The error ``indexing into non-array or non-component type'' is reported
  exactly when the resulting type is unknown, so for every combination outside the
  table. The base and the indices are the arguments, except for the flattening of a
  one-index access whose base is a two-child index node, which the specification
  describes: then they are that node's base, that node's index and the given index.
\<close>

theorem index_type_table:
  assumes "index3 \<noteq> None \<Longrightarrow> index2 \<noteq> None"
    and "(if index2 = None \<and> nodetype expr = index_node \<and> nchildren expr = 2
          then child expr 0 else Some expr) = Some e"
  shows "\<exists>n cmp'. ASTindex cmp expr index index2 index3 = Inr (n, cmp')
           \<and> child n 0 = Some e
           \<and> m_typespec n =
               (case spec_index_table (m_typespec e) (nchildren n - 1) of
                  Some t \<Rightarrow> t
                | None \<Rightarrow> TypeSpec_default)
           \<and> diags cmp' =
               diags cmp
               @ (if is_unknown (m_typespec n)
                  then [Error (filename cmp) (lineno cmp)
                          ''indexing into non-array or non-component type'']
                  else [])
           \<and> (if spec_index_table (m_typespec e) (nchildren n - 1) = None
               then is_unknown (m_typespec n) else True)
           \<and> (if index2 = None \<and> nodetype expr = index_node \<and> nchildren expr = 2
               then m_children n = [Some e, child expr 1, Some index]
               else m_children n = [Some expr, Some index]
                      @ (if index2 \<noteq> None then [index2] else [])
                      @ (if index3 \<noteq> None then [index3] else []))"
proof -
  obtain n where n:
    "ASTindex cmp expr index index2 index3 =
               Inr (n, if is_unknown (m_typespec n)
                       then errorfmt n ''indexing into non-array or non-component type'' cmp
                       else cmp)"
    "m_sourcefile n = filename cmp" "m_sourceline n = lineno cmp"
    "m_children n =
               (if index2 = None \<and> nodetype expr = index_node \<and> nchildren expr = 2
                then [child expr 0, child expr 1, Some index]
                else [Some expr, Some index]
                     @ (if index2 \<noteq> None then [index2] else [])
                     @ (if index3 \<noteq> None then [index3] else []))"
    "m_typespec n =
               index_typespec (m_typespec e)
                 (index2 \<noteq> None \<or> (nodetype expr = index_node \<and> nchildren expr = 2))
                 (index3 \<noteq> None)"
    using ASTindex_result [OF assms(2), where cmp = cmp and index = index and ?index3.0 = index3]
    by blast
  let ?cmp' = "if is_unknown (m_typespec n)
               then errorfmt n ''indexing into non-array or non-component type'' cmp else cmp"
  have c0: "child n 0 = Some e"
    using n(4) assms(2) by (auto simp: child_def split: if_splits)
  have k: "nchildren n - 1 =
             (if \<not> (index2 \<noteq> None \<or> (nodetype expr = index_node \<and> nchildren expr = 2)) then 1
              else if \<not> (index3 \<noteq> None) then 2 else 3)"
  proof -
    have "index2 = None \<longrightarrow> index3 = None" using assms(1) by blast
    then show ?thesis using n(4) by (auto simp: nchildren_def)
  qed
  have t: "m_typespec n =
             (case spec_index_table (m_typespec e) (nchildren n - 1) of
                Some t \<Rightarrow> t | None \<Rightarrow> TypeSpec_default)"
    by (simp only: n(5) k index_typespec_table)
  have d: "diags ?cmp' = diags cmp
               @ (if is_unknown (m_typespec n)
                  then [Error (filename cmp) (lineno cmp)
                          ''indexing into non-array or non-component type'']
                  else [])"
    by (simp add: diags_errorfmt n(2,3))
  have u: "if spec_index_table (m_typespec e) (nchildren n - 1) = None
           then is_unknown (m_typespec n) else True"
    using t by (simp add: is_unknown_default)
  have ch: "if index2 = None \<and> nodetype expr = index_node \<and> nchildren expr = 2
               then m_children n = [Some e, child expr 1, Some index]
               else m_children n = [Some expr, Some index]
                      @ (if index2 \<noteq> None then [index2] else [])
                      @ (if index3 \<noteq> None then [index3] else [])"
    using n(4) assms(2) by (auto split: if_splits)
  show ?thesis
    using n(1) c0 t d u ch by (intro exI [of _ n] exI [of _ ?cmp']) blast
qed

theorem index_type_table_witness:
  "\<exists>n cmp'. ASTindex example_compiler example_color_array_ref (ASTliteral_int example_compiler 2)
               (Some (ASTliteral_int example_compiler 0)) None = Inr (n, cmp')
      \<and> child n 0 = Some example_color_array_ref
      \<and> m_typespec n = TypeFloat
      \<and> diags cmp' = []"
proof -
  have o: "(None :: int ASTNode option) \<noteq> None \<Longrightarrow>
             Some (ASTliteral_int example_compiler 0 :: int ASTNode) \<noteq> None"
    by simp
  have b: "(if Some (ASTliteral_int example_compiler 0 :: int ASTNode) = None
              \<and> nodetype example_color_array_ref = index_node
              \<and> nchildren example_color_array_ref = 2
            then child example_color_array_ref 0 else Some example_color_array_ref)
           = Some example_color_array_ref"
    by simp
  have tab: "spec_index_table (m_typespec example_color_array_ref) 2 = Some TypeFloat"
    by (simp add: spec_index_table_def example_color_array_ref_def make_array_def TypeColor_def
        TypeSpec_simple_def is_array_def is_matrix_def is_simple_def is_triple_def is_color_def
        elementtype_def)
  from index_type_table [where ?index3.0 = None
      and ?index2.0 = "Some (ASTliteral_int example_compiler 0)"
      and expr = example_color_array_ref and e = example_color_array_ref
      and cmp = example_compiler and index = "ASTliteral_int example_compiler 2", OF o b]
  show ?thesis
    by (simp add: ASTindex_def Let_def example_color_array_ref_def index_typespec_def
        make_array_def TypeColor_def TypeSpec_simple_def is_array_def is_matrix_def
        is_simple_def is_triple_def is_color_def elementtype_def nchildren_def
        typespec_set_typespec children_set_typespec children_set_children child_def
        ASTNode_base_def TypeFloat_known example_compiler_def)
qed

subsection \<open>Named components of colors and vectors\<close>

lemma lvalue_base: "lvalue (ASTNode_base nt cmp op (Some e # rest) d) = Some e"
  by (simp add: lvalue_def child_def ASTNode_base_def)

lemma fieldname_base:
  "fieldname (ASTNode_base nt cmp op kids (StructselectData fl sid fid fn fs ci)) = fn"
  by (simp add: fieldname_def ASTNode_base_def)

lemma find_fieldsym_component:
  assumes "spec_named_component (m_typespec expr) (fieldname this)"
    and "lvalue this = Some expr"
    and "ASTindex cmp expr (ASTliteral_int cmp (spec_component_index (fieldname this))) None None
           = Inr (ix, cmp1)"
  shows "find_fieldsym env cmp this =
           Inr (None,
                set_is_lvalue True
                  (set_compindex (Some ix)
                     (set_fieldid (sint (spec_component_index (fieldname this))) this)),
                cmp1)"
proof -
  have excl: "is_color (m_typespec expr) \<Longrightarrow> \<not> is_vectriple (m_typespec expr)"
    by (auto simp: is_color_def is_vectriple_def is_simple_def)
  show ?thesis
  proof (cases "is_color (m_typespec expr)")
    case True
    then have f: "fieldname this = ''r'' \<or> fieldname this = ''g'' \<or> fieldname this = ''b''"
      using assms(1) excl by (auto simp: spec_named_component_def)
    have k: "(if fieldname this = ''r'' then 0 else if fieldname this = ''g'' then 1 else 2)
               = spec_component_index (fieldname this)"
      using f by (auto simp: spec_component_index_def)
    show ?thesis
      by (subst find_fieldsym.simps) (simp add: assms(2) True f Let_def k assms(3))
  next
    case False
    then have v: "is_vectriple (m_typespec expr)"
      and f: "fieldname this = ''x'' \<or> fieldname this = ''y'' \<or> fieldname this = ''z''"
      using assms(1) by (auto simp: spec_named_component_def)
    have k: "(if fieldname this = ''x'' then 0 else if fieldname this = ''y'' then 1 else 2)
               = spec_component_index (fieldname this)"
      using f by (auto simp: spec_component_index_def)
    show ?thesis
      by (subst find_fieldsym.simps) (simp add: assms(2) False v f Let_def k assms(3))
  qed
qed

lemma structselect_component_node:
  "set_is_lvalue True (set_compindex (Some ix) (set_fieldid i
      (ASTNode_base structselect_node cmp NoOp kids (StructselectData fl sid fid fn fs None))))
   = ASTNode structselect_node (filename cmp) (lineno cmp) NoOp kids None TypeSpec_default True
       (StructselectData fl sid i fn fs (Some ix))"
  by (simp add: ASTNode_base_def set_fieldid_def set_compindex_def set_is_lvalue_def set_data_def)

lemma named_component_triple:
  assumes "spec_named_component t fl"
  shows "\<not> is_array t \<and> \<not> is_closure t \<and> is_triple t"
  using assms
  by (auto simp: spec_named_component_def is_color_def is_vectriple_def is_simple_def
        is_array_def is_closure_def is_triple_def)

text \<open>
  C6: a struct-select node over a base of color type with field \<open>r\<close>, \<open>g\<close> or \<open>b\<close>, or
  of vector, point or normal type with field \<open>x\<close>, \<open>y\<close> or \<open>z\<close>, is marked as an
  lvalue, has the type float, holds the index node \<open>ix\<close> that the index constructor
  builds over the base and the int literal 0, 1 or 2, and has no field symbol. When the
  base is not itself a two-child index node, \<open>ix\<close> has exactly the base and the literal
  as children, has the type float, and nothing is reported.
\<close>

theorem structselect_named_component:
  assumes "spec_named_component (m_typespec expr) fl"
    and "ASTindex cmp expr (ASTliteral_int cmp (spec_component_index fl)) None None
           = Inr (ix, cmp1)"
  shows "\<exists>n. ASTstructselect env cmp expr fl = Inr (n, cmp1)
           \<and> nodetype n = structselect_node
           \<and> m_children n = [Some expr]
           \<and> m_is_lvalue n
           \<and> m_typespec n = TypeFloat
           \<and> compindex n = Some ix
           \<and> fieldsym n = None
           \<and> m_data n = StructselectData fl (- 1) (sint (spec_component_index fl)) fl None (Some ix)
           \<and> (if nodetype expr = index_node \<and> nchildren expr = 2 then True
               else cmp1 = cmp
                  \<and> m_children ix = [Some expr, Some (ASTliteral_int cmp (spec_component_index fl))]
                  \<and> m_typespec ix = TypeFloat)"
proof -
  let ?n0 = "ASTNode_base structselect_node cmp NoOp [Some expr]
               (StructselectData fl (- 1) (- 1) fl None None) :: 'a ASTNode"
  have fn: "fieldname ?n0 = fl" by (rule fieldname_base)
  have lv: "lvalue ?n0 = Some expr" by (rule lvalue_base)
  have ff: "find_fieldsym env cmp ?n0 =
           Inr (None,
                set_is_lvalue True
                  (set_compindex (Some ix) (set_fieldid (sint (spec_component_index fl)) ?n0)),
                cmp1)"
    using find_fieldsym_component [of expr ?n0 cmp ix cmp1 env] assms lv
    by (simp only: fn)
  let ?n = "ASTNode structselect_node (filename cmp) (lineno cmp) NoOp [Some expr] None TypeFloat True
              (StructselectData fl (- 1) (sint (spec_component_index fl)) fl None (Some ix))
            :: 'a ASTNode"
  have res: "ASTstructselect env cmp expr fl = Inr (?n, cmp1)"
    by (simp add: ASTstructselect_def Let_def ff structselect_component_node
        set_fieldsym_def set_data_def compindex_def set_typespec_def)
  have ix: "cmp1 = cmp
          \<and> m_children ix = [Some expr, Some (ASTliteral_int cmp (spec_component_index fl))]
          \<and> m_typespec ix = TypeFloat"
    if "\<not> (nodetype expr = index_node \<and> nchildren expr = 2)"
  proof -
    have b: "(if (None :: 'a ASTNode option) = None \<and> nodetype expr = index_node \<and> nchildren expr = 2
              then child expr 0 else Some expr) = Some expr"
      using that by auto
    have t: "index_typespec (m_typespec expr) False False = TypeFloat"
      using named_component_triple [OF assms(1)] by (simp add: index_typespec_def)
    show ?thesis
      using ASTindex_result [OF b, of cmp "ASTliteral_int cmp (spec_component_index fl)" None]
        assms(2) that t
      by (auto simp: TypeFloat_known)
  qed
  show ?thesis
    using res ix
    by (intro exI [of _ ?n]) (simp add: compindex_def fieldsym_def)
qed

theorem structselect_named_component_witness:
  "\<exists>n ix. ASTstructselect example_env example_compiler example_color_ref ''g''
             = Inr (n, example_compiler)
      \<and> m_is_lvalue n \<and> m_typespec n = TypeFloat \<and> fieldsym n = None
      \<and> compindex n = Some ix
      \<and> m_children ix = [Some example_color_ref, Some (ASTliteral_int example_compiler 1)]
      \<and> m_typespec ix = TypeFloat"
proof -
  have c: "spec_named_component (m_typespec example_color_ref) ''g''"
    by (simp add: spec_named_component_def example_color_ref_def TypeColor_def
        TypeSpec_simple_def is_color_def is_simple_def)
  have k: "spec_component_index ''g'' = 1"
    by (simp add: spec_component_index_def)
  have b: "(if (None :: int ASTNode option) = None \<and> nodetype example_color_ref = index_node
               \<and> nchildren example_color_ref = 2
            then child example_color_ref 0 else Some example_color_ref) = Some example_color_ref"
    by (simp add: example_color_ref_def)
  obtain ix where ix:
    "ASTindex example_compiler example_color_ref (ASTliteral_int example_compiler 1) None None
       = Inr (ix, if is_unknown (m_typespec ix)
                  then errorfmt ix ''indexing into non-array or non-component type'' example_compiler
                  else example_compiler)"
    "m_typespec ix = index_typespec (m_typespec example_color_ref) False False"
    using ASTindex_result [OF b, of example_compiler "ASTliteral_int example_compiler 1" None]
    by (auto simp: example_color_ref_def)
  have t: "m_typespec ix = TypeFloat"
    using ix(2) named_component_triple [OF c] by (simp add: index_typespec_def)
  have r: "ASTindex example_compiler example_color_ref
             (ASTliteral_int example_compiler (spec_component_index ''g'')) None None
           = Inr (ix, example_compiler)"
    using ix(1) t by (simp add: k TypeFloat_known)
  have ne: "\<not> (nodetype example_color_ref = index_node \<and> nchildren example_color_ref = 2)"
    by (simp add: example_color_ref_def)
  from structselect_named_component [OF c r, of example_env]
  show ?thesis using ne k by auto
qed

subsection \<open>Shader declarations\<close>

lemma report_all_errorfmt:
  "errorfmt n msg (report_all ds cmp) = report_all (ds @ [Error (m_sourcefile n) (m_sourceline n) msg]) cmp"
  by (simp add: errorfmt_def report_def report_all_def)

lemma report_all_report_all: "report_all es (report_all ds cmp) = report_all (ds @ es) cmp"
  by (simp add: report_all_def)

lemma errorfmt_report_all:
  "errorfmt n msg cmp = report_all [Error (m_sourcefile n) (m_sourceline n) msg] cmp"
  by (simp add: errorfmt_def report_def report_all_def)

lemma shader_check_formals_errors:
  assumes "\<forall>v \<in> set vs. nodetype v = variable_declaration_node"
  shows "shader_check_formals vs cmp = Inr (report_all (concat (map spec_formal_errors vs)) cmp)"
  using assms
proof (induction vs arbitrary: cmp)
  case Nil
  then show ?case by (simp add: report_all_Nil)
next
  case (Cons v vs)
  have step: "(if is_output v \<and> is_unsized_array (m_typespec v)
               then errorfmt v (unsized_output_msg (name v))
                      (if init v = None then errorfmt v (requires_initializer_msg (name v)) cmp
                       else cmp)
               else (if init v = None then errorfmt v (requires_initializer_msg (name v)) cmp
                     else cmp))
              = report_all (spec_formal_errors v) cmp"
    by (simp add: spec_formal_errors_def errorfmt_report_all report_all_report_all
        report_all_Nil requires_initializer_msg_def unsized_output_msg_def)
  have "shader_check_formals (v # vs) cmp
          = shader_check_formals vs (report_all (spec_formal_errors v) cmp)"
    using Cons.prems by (simp add: Let_def step del: if_split split del: if_split)
  also have "\<dots> = Inr (report_all (concat (map spec_formal_errors vs))
                       (report_all (spec_formal_errors v) cmp))"
    using Cons.prems by (intro Cons.IH) simp
  finally show ?case by (simp add: report_all_report_all)
qed

lemma shader_messages_differ:
  "''shader parameter '' @ squote @ a @ squote @ '' requires a default initializer''
     \<noteq> ''shader output parameter '' @ squote @ b @ squote @ '' can'' @ squote @ ''t be unsized array''"
  by simp

text \<open>
  C7: a shader declaration whose formals are variable declarations is constructed, and
  the diagnostics it adds are, formal by formal, the error ``shader parameter 'name'
  requires a default initializer'' for a formal without initializer and the different
  error ``shader output parameter 'name' can't be unsized array'' for an output formal
  whose type is an unsized array; nothing is added when no formal calls for either.
\<close>

theorem shader_formals_checked:
  assumes "\<forall>v \<in> set (siblings form). nodetype v = variable_declaration_node"
  shows "\<exists>n cmp'. ASTshader_declaration cmp stype nm form stmts meta = Inr (n, cmp')
           \<and> nodetype n = shader_declaration_node
           \<and> m_children n = [meta, form, stmts]
           \<and> diags cmp' = diags cmp @ concat (map spec_formal_errors (siblings form))
           \<and> (\<forall>v \<in> set (siblings form). init v = None \<longrightarrow>
                 Error (m_sourcefile v) (m_sourceline v)
                   (''shader parameter '' @ squote @ name v @ squote
                    @ '' requires a default initializer'') \<in> set (diags cmp'))
           \<and> (\<forall>v \<in> set (siblings form). is_output v \<and> is_unsized_array (m_typespec v) \<longrightarrow>
                 Error (m_sourcefile v) (m_sourceline v)
                   (''shader output parameter '' @ squote @ name v @ squote
                    @ '' can'' @ squote @ ''t be unsized array'') \<in> set (diags cmp'))
           \<and> ((\<forall>v \<in> set (siblings form).
                   init v \<noteq> None \<and> \<not> (is_output v \<and> is_unsized_array (m_typespec v)))
                \<longrightarrow> diags cmp' = diags cmp)
           \<and> ''shader parameter '' @ squote @ a @ squote @ '' requires a default initializer''
                \<noteq> ''shader output parameter '' @ squote @ b @ squote
                    @ '' can'' @ squote @ ''t be unsized array''"
proof -
  let ?n = "ASTNode_base shader_declaration_node cmp (ShaderTypeOp stype) [meta, form, stmts]
              (ShaderDeclData nm) :: 'a ASTNode"
  let ?E = "concat (map spec_formal_errors (siblings form))"
  let ?cmp' = "report_all ?E cmp"
  have res: "ASTshader_declaration cmp stype nm form stmts meta = Inr (?n, ?cmp')"
    by (simp add: ASTshader_declaration_def Let_def shader_check_formals_errors [OF assms])
  have d: "diags ?cmp' = diags cmp @ ?E" by (rule diags_report_all)
  have e1: "Error (m_sourcefile v) (m_sourceline v)
                   (''shader parameter '' @ squote @ name v @ squote
                    @ '' requires a default initializer'') \<in> set (diags ?cmp')"
    if "v \<in> set (siblings form)" "init v = None" for v
  proof -
    have "Error (m_sourcefile v) (m_sourceline v)
                   (''shader parameter '' @ squote @ name v @ squote
                    @ '' requires a default initializer'') \<in> set (spec_formal_errors v)"
      using that(2) by (simp add: spec_formal_errors_def)
    then show ?thesis using that(1) by (auto simp: d)
  qed
  have e2: "Error (m_sourcefile v) (m_sourceline v)
                   (''shader output parameter '' @ squote @ name v @ squote
                    @ '' can'' @ squote @ ''t be unsized array'') \<in> set (diags ?cmp')"
    if "v \<in> set (siblings form)" "is_output v \<and> is_unsized_array (m_typespec v)" for v
  proof -
    have "Error (m_sourcefile v) (m_sourceline v)
                   (''shader output parameter '' @ squote @ name v @ squote
                    @ '' can'' @ squote @ ''t be unsized array'') \<in> set (spec_formal_errors v)"
      using that(2) by (simp add: spec_formal_errors_def)
    then show ?thesis using that(1) by (auto simp: d)
  qed
  have none: "diags ?cmp' = diags cmp"
    if "\<forall>v \<in> set (siblings form).
                   init v \<noteq> None \<and> \<not> (is_output v \<and> is_unsized_array (m_typespec v))"
  proof -
    have "\<forall>v \<in> set (siblings form). spec_formal_errors v = []"
      using that by (auto simp: spec_formal_errors_def)
    then have "?E = []" by simp
    then show ?thesis by (simp add: d)
  qed
  show ?thesis
  proof (intro exI [of _ ?n] exI [of _ ?cmp'] conjI ballI impI)
    show "ASTshader_declaration cmp stype nm form stmts meta = Inr (?n, ?cmp')" by (rule res)
    show "nodetype ?n = shader_declaration_node" by (simp add: ASTNode_base_def)
    show "m_children ?n = [meta, form, stmts]" by (simp add: ASTNode_base_def)
    show "diags ?cmp' = diags cmp @ ?E" by (rule d)
  qed (use e1 e2 none shader_messages_differ in \<open>blast+\<close>)
qed

theorem shader_formals_checked_witness:
  "\<exists>n cmp'. ASTshader_declaration example_compiler 0 ''test'' (Some example_formal_Kd) None None
               = Inr (n, cmp')
      \<and> diags cmp' =
          [Error ''test.osl'' 3
             (''shader parameter '' @ squote @ ''Kd'' @ squote @ '' requires a default initializer''),
           Error ''test.osl'' 4
             (''shader output parameter '' @ squote @ ''result'' @ squote
              @ '' can'' @ squote @ ''t be unsized array'')]"
proof -
  have f: "siblings (Some example_formal_Kd) = [example_formal_Kd, example_formal_result]"
    by (simp add: example_formal_Kd_def example_formal_result_def)
  have a: "\<forall>v \<in> set (siblings (Some example_formal_Kd)). nodetype v = variable_declaration_node"
    by (simp add: f) (simp add: example_formal_Kd_def example_formal_result_def)
  have e: "concat (map spec_formal_errors (siblings (Some example_formal_Kd))) =
          [Error ''test.osl'' 3
             (''shader parameter '' @ squote @ ''Kd'' @ squote @ '' requires a default initializer''),
           Error ''test.osl'' 4
             (''shader output parameter '' @ squote @ ''result'' @ squote
              @ '' can'' @ squote @ ''t be unsized array'')]"
    by (simp add: f) (simp add: spec_formal_errors_def example_formal_Kd_def
        example_formal_result_def init_def child_def name_def is_output_def is_unsized_array_def
        make_array_def TypeFloat_def TypeSpec_simple_def)
  from shader_formals_checked [OF a, of example_compiler 0 "''test''" None None]
  show ?thesis
    by (auto simp: e example_compiler_def)
qed

subsection \<open>Function declarations with a formal of unknown type\<close>

lemma function_formals_loop_unknown:
  assumes "\<forall>v \<in> set pre. m_typespec v \<noteq> TypeSpec_default \<and> nodetype v = variable_declaration_node"
    and "m_typespec u = TypeSpec_default"
  shows "function_formals_loop env (pre @ u # post) argcodes cmp =
           Inr (None,
                report_all
                  (concat (map (\<lambda>v. if init v \<noteq> None
                                      then [Error (m_sourcefile v) (m_sourceline v)
                                              (no_default_initializer_msg (name v))]
                                      else []) pre))
                  cmp)"
  using assms(1)
proof (induction pre arbitrary: argcodes cmp)
  case Nil
  then show ?case using assms(2) by (simp add: report_all_Nil)
next
  case (Cons v pre)
  let ?e = "(if init v \<noteq> None
             then [Error (m_sourcefile v) (m_sourceline v) (no_default_initializer_msg (name v))]
             else [])"
  have step: "(if init v \<noteq> None then errorfmt v (no_default_initializer_msg (name v)) cmp else cmp)
                = report_all ?e cmp"
    by (simp add: errorfmt_report_all report_all_Nil)
  have "function_formals_loop env ((v # pre) @ u # post) argcodes cmp
          = function_formals_loop env (pre @ u # post)
              (argcodes @ code_from_type env (m_typespec v)) (report_all ?e cmp)"
    using Cons.prems by (simp add: step del: if_split not_None_eq split del: if_split)
  also have "\<dots> = Inr (None,
                report_all
                  (concat (map (\<lambda>v. if init v \<noteq> None
                                      then [Error (m_sourcefile v) (m_sourceline v)
                                              (no_default_initializer_msg (name v))]
                                      else []) pre))
                  (report_all ?e cmp))"
    using Cons.prems by (intro Cons.IH) simp
  finally show ?case by (simp add: report_all_report_all)
qed

lemma env_typecheck_function_update:
  "type_string (env\<lparr>typecheck_function := tc\<rparr>) = type_string env"
  "code_from_type (env\<lparr>typecheck_function := tc\<rparr>) = code_from_type env"
  "fs_filename (env\<lparr>typecheck_function := tc\<rparr>) = fs_filename env"
  by simp_all

lemma function_formals_loop_typecheck_function:
  "function_formals_loop (env\<lparr>typecheck_function := tc\<rparr>) vs argcodes cmp
     = function_formals_loop env vs argcodes cmp"
  by (induction vs arbitrary: argcodes cmp) simp_all

lemma sym_function_declaration_base:
  "sym (set_typespec t (set_typespec t'
          (if c then set_sourceline sl
                       (ASTNode_base function_declaration_node cmp NoOp kids (FuncDeclData nm None False))
           else ASTNode_base function_declaration_node cmp NoOp kids (FuncDeclData nm None False))))
     = None"
  by (simp add: sym_def ASTNode_base_def set_typespec_def set_sourceline_def)

text \<open>
  C9: when the formals \<open>pre\<close> before the first one of unknown type \<open>u\<close> are variable
  declarations of known type, the constructor returns a declaration of unknown type
  without a function symbol; the symbol table is unchanged; the only diagnostics added
  are the errors of the name checks that precede the loop and, for each formal of
  \<open>pre\<close> that has a default initializer, its error, so no redefinition warning is among
  them; and the result does not depend on the type checker, which is not called.
\<close>

theorem function_declaration_unknown_formal:
  assumes "siblings form = pre @ u # post"
    and "\<forall>v \<in> set pre. m_typespec v \<noteq> TypeSpec_default \<and> nodetype v = variable_declaration_node"
    and "m_typespec u = TypeSpec_default"
  shows "\<exists>n cmp'. ASTfunction_declaration env cmp type nm form stmts meta sl = Inr (n, cmp')
           \<and> nodetype n = function_declaration_node
           \<and> m_typespec n = TypeSpec_default
           \<and> sym n = None
           \<and> symtab cmp' = symtab cmp
           \<and> diags cmp' =
               diags cmp
               @ (if starts_with nm ''___''
                  then [Error (m_sourcefile n) (m_sourceline n) (three_underscores_msg nm)] else [])
               @ (case symtab_clash (symtab cmp) nm of
                    Some e \<Rightarrow> if sym_symtype e \<noteq> SymTypeFunction
                              then [Error (m_sourcefile n) (m_sourceline n)
                                      (already_declared_as_msg env nm e)]
                              else []
                  | None \<Rightarrow> [])
               @ concat (map (\<lambda>v. if init v \<noteq> None
                                   then [Error (m_sourcefile v) (m_sourceline v)
                                           (no_default_initializer_msg (name v))]
                                   else []) pre)
           \<and> ASTfunction_declaration (env\<lparr>typecheck_function := tc\<rparr>) cmp type nm form stmts meta sl
               = Inr (n, cmp')"
proof -
  let ?n0 = "ASTNode_base function_declaration_node cmp NoOp [meta, form, stmts]
               (FuncDeclData nm None False) :: 'a ASTNode"
  let ?n1 = "(if sl \<ge> 0 then set_sourceline sl ?n0 else ?n0)"
  let ?u = "(if starts_with nm ''___''
             then [Error (m_sourcefile ?n1) (m_sourceline ?n1) (three_underscores_msg nm)] else [])"
  let ?c = "\<lambda>env :: 'a Env. (case symtab_clash (symtab cmp) nm of
                    Some e \<Rightarrow> if sym_symtype e \<noteq> SymTypeFunction
                              then [Error (m_sourcefile ?n1) (m_sourceline ?n1)
                                      (already_declared_as_msg env nm e)]
                              else []
                  | None \<Rightarrow> [])"
  let ?p = "concat (map (\<lambda>v. if init v \<noteq> None
                                   then [Error (m_sourcefile v) (m_sourceline v)
                                           (no_default_initializer_msg (name v))]
                                   else []) pre)"
  let ?cmp1 = "(if starts_with nm ''___''
                then errorfmt ?n1 (three_underscores_msg nm) cmp else cmp)"
  have c1: "?cmp1 = report_all ?u cmp"
    by (simp add: errorfmt_report_all report_all_Nil)
  let ?cmp2 = "\<lambda>env :: 'a Env. (case symtab_clash (symtab ?cmp1) nm of
                    Some e \<Rightarrow> if (case symtab_clash (symtab ?cmp1) nm of
                                    Some e \<Rightarrow> sym_symtype e \<noteq> SymTypeFunction | None \<Rightarrow> False)
                              then errorfmt ?n1 (already_declared_as_msg env nm e) ?cmp1 else ?cmp1
                  | None \<Rightarrow> ?cmp1)"
  have c2: "?cmp2 e = report_all (?u @ ?c e) cmp" for e
    by (simp only: c1 symtab_report_all)
       (simp add: errorfmt_report_all report_all_report_all report_all_Nil split: option.splits)
  let ?n = "set_typespec TypeSpec_default (set_typespec type ?n1)"
  let ?cmp' = "\<lambda>env. report_all ((?u @ ?c env) @ ?p) cmp"
  have res: "ASTfunction_declaration e cmp type nm form stmts meta sl = Inr (?n, ?cmp' e)"
    if "code_from_type e = code_from_type env" for e
    unfolding ASTfunction_declaration_def Let_def
    by (simp only: c2 assms(1) function_formals_loop_unknown [OF assms(2,3)]
          report_all_report_all sum.case prod.case option.case)
  have same: "already_declared_as_msg (env\<lparr>typecheck_function := tc\<rparr>) nm e
                = already_declared_as_msg env nm e" for e
    by (simp add: already_declared_as_msg_def)
  have loc: "m_sourcefile ?n = m_sourcefile ?n1" "m_sourceline ?n = m_sourceline ?n1"
    by (simp_all add: location_set_typespec)
  show ?thesis
  proof (intro exI [of _ ?n] exI [of _ "?cmp' env"] conjI)
    show "ASTfunction_declaration env cmp type nm form stmts meta sl = Inr (?n, ?cmp' env)"
      by (rule res) simp
    show "nodetype ?n = function_declaration_node"
      by (simp add: nodetype_set_typespec ASTNode_base_def set_sourceline_def)
    show "m_typespec ?n = TypeSpec_default" by (rule typespec_set_typespec)
    show "sym ?n = None" by (rule sym_function_declaration_base)
    show "symtab (?cmp' env) = symtab cmp" by (rule symtab_report_all)
    show "diags (?cmp' env) =
               diags cmp
               @ (if starts_with nm ''___''
                  then [Error (m_sourcefile ?n) (m_sourceline ?n) (three_underscores_msg nm)] else [])
               @ (case symtab_clash (symtab cmp) nm of
                    Some e \<Rightarrow> if sym_symtype e \<noteq> SymTypeFunction
                              then [Error (m_sourcefile ?n) (m_sourceline ?n)
                                      (already_declared_as_msg env nm e)]
                              else []
                  | None \<Rightarrow> [])
               @ ?p"
      by (simp only: loc diags_report_all append_assoc)
    have "ASTfunction_declaration (env\<lparr>typecheck_function := tc\<rparr>) cmp type nm form stmts meta sl
            = Inr (?n, ?cmp' (env\<lparr>typecheck_function := tc\<rparr>))"
      by (rule res) simp
    then show "ASTfunction_declaration (env\<lparr>typecheck_function := tc\<rparr>) cmp type nm form stmts meta sl
            = Inr (?n, ?cmp' env)"
      by (simp only: same)
  qed
qed

theorem function_declaration_unknown_formal_witness:
  "\<exists>n cmp'. ASTfunction_declaration example_env example_compiler TypeFloat ''f''
               (Some example_formal_a) (Some (ASTliteral_float example_compiler 0)) None (- 1)
             = Inr (n, cmp')
      \<and> m_typespec n = TypeSpec_default \<and> sym n = None
      \<and> symtab cmp' = symtab example_compiler
      \<and> diags cmp' =
          [Error ''test.osl'' 5
             (''function parameter '' @ squote @ ''a'' @ squote
              @ '' may not have a default initializer.'')]"
proof -
  have f: "siblings (Some example_formal_a) = [example_formal_a] @ example_formal_b # []"
    by (simp add: example_formal_a_def example_formal_b_def)
  have p: "\<forall>v \<in> set [example_formal_a].
             m_typespec v \<noteq> TypeSpec_default \<and> nodetype v = variable_declaration_node"
    by (simp add: example_formal_a_def TypeFloat_def TypeSpec_default_def TypeSpec_simple_def)
  have u: "m_typespec example_formal_b = TypeSpec_default"
    by (simp add: example_formal_b_def)
  from function_declaration_unknown_formal [OF f p u, where env = example_env
      and cmp = example_compiler and type = TypeFloat and nm = "''f''"
      and stmts = "Some (ASTliteral_float example_compiler 0)" and meta = None and sl = "- 1"
      and tc = "typecheck_function example_env"]
  show ?thesis
    by (auto simp: starts_with_def symtab_clash_def example_compiler_def
          example_formal_a_def init_def child_def name_def no_default_initializer_msg_def)
qed

subsection \<open>Tearing down a sibling chain\<close>

lemma fold_max_acc: "fold max xs (a :: nat) = max a (fold max xs 0)"
proof (induction xs arbitrary: a)
  case Nil
  then show ?case by simp
next
  case (Cons x xs)
  have "fold max (x # xs) a = fold max xs (max x a)" by simp
  also have "\<dots> = max (max x a) (fold max xs 0)" by (rule Cons.IH)
  finally have l: "fold max (x # xs) a = max (max x a) (fold max xs 0)" .
  have "fold max (x # xs) 0 = fold max xs x" by simp
  also have "\<dots> = max x (fold max xs 0)" by (rule Cons.IH)
  finally have r: "fold max (x # xs) 0 = max x (fold max xs 0)" .
  show ?case unfolding l r by (metis max.assoc max.commute)
qed

lemma list_max_Nil: "list_max [] = 0"
  by (simp add: list_max_def)

lemma list_max_Cons: "list_max (x # xs) = max x (list_max xs)"
  using fold_max_acc [of xs x] by (simp add: list_max_def)

lemma list_max_le: "(\<And>x. x \<in> set xs \<Longrightarrow> x \<le> b) \<Longrightarrow> list_max xs \<le> b"
  by (induction xs) (simp_all add: list_max_Nil list_max_Cons)

lemma list_max_ge: "x \<in> set xs \<Longrightarrow> x \<le> list_max xs"
  by (induction xs) (auto simp: list_max_Cons)

lemma dtor_loop_siblings: "dtor_loop c = map (set_next None) (siblings c)"
  by (induction c rule: siblings.induct) (simp_all add: set_next_def)

lemma owned_set_next: "owned (set_next nx n) = owned n"
  by (cases n) (simp add: owned_def set_next_def compindex_def)

lemma next_set_next: "m_next (set_next nx n) = nx"
  by (cases n) (simp add: set_next_def)

lemma node_height_set_next: "node_height (set_next nx n) = node_height n"
  by (subst (1 2) node_height.simps) (simp only: owned_set_next)

lemma siblings_Some: "siblings (Some n) = n # siblings (m_next n)"
  by (cases n) simp

lemma chain_height_Some: "chain_height (Some n) = max (node_height n) (chain_height (m_next n))"
  by (simp add: chain_height_def siblings_Some list_max_Cons)

lemma chain_height_None: "chain_height None = 0"
  by (simp add: chain_height_def list_max_Nil)

lemma node_height_le_chain: "s \<in> set (siblings c) \<Longrightarrow> node_height s \<le> chain_height c"
  unfolding chain_height_def by (rule list_max_ge) simp

lemma owned_height: "c \<in> set (owned n) \<Longrightarrow> Suc (chain_height (Some c)) \<le> node_height n"
proof -
  assume c: "c \<in> set (owned n)"
  then have ne: "owned n \<noteq> []" by auto
  have "chain_height (Some c)
          \<le> list_max (map (\<lambda>c. list_max (map node_height (siblings (Some c)))) (owned n))"
    using c unfolding chain_height_def by (intro list_max_ge) auto
  then show ?thesis
    using ne by (subst node_height.simps) simp
qed

text \<open>
  The destructor of a node without a next sibling nests one level less than that of a
  node with one; in both cases sibling links add nothing.
\<close>

lemma dtor_depth_bound:
  "dtor_depth n \<le> (if m_next n = None then 1 else 2) + 2 * chain_height (Some n)"
proof (induction n rule: dtor_depth.induct)
  case (1 n)
  let ?A = "list_max (map dtor_depth (dtor_loop (m_next n)))"
  let ?B = "list_max (map dtor_depth (owned n))"
  have d: "dtor_depth n = Suc (max ?A ?B)" by (subst dtor_depth.simps) simp
  have B: "?B \<le> 2 * node_height n"
  proof (rule list_max_le)
    fix x assume "x \<in> set (map dtor_depth (owned n))"
    then obtain c where c: "c \<in> set (owned n)" "x = dtor_depth c" by auto
    have "dtor_depth c \<le> 2 + 2 * chain_height (Some c)"
      using "1.IH"(2) [OF c(1)] by (simp split: if_splits)
    also have "\<dots> \<le> 2 * node_height n" using owned_height [OF c(1)] by simp
    finally show "x \<le> 2 * node_height n" using c(2) by simp
  qed
  have A: "?A \<le> (if m_next n = None then 0 else 1 + 2 * chain_height (m_next n))"
  proof (cases "m_next n")
    case None
    then show ?thesis by (simp add: list_max_Nil)
  next
    case (Some m)
    have "?A \<le> 1 + 2 * chain_height (m_next n)"
    proof (rule list_max_le)
      fix x assume "x \<in> set (map dtor_depth (dtor_loop (m_next n)))"
      then obtain r where r: "r \<in> set (dtor_loop (m_next n))" "x = dtor_depth r" by auto
      then obtain s where s: "s \<in> set (siblings (m_next n))" "r = set_next None s"
        by (auto simp: dtor_loop_siblings)
      have "dtor_depth r \<le> 1 + 2 * chain_height (Some r)"
        using "1.IH"(1) [OF r(1)] by (simp add: s(2) next_set_next)
      also have "chain_height (Some r) = node_height s"
        by (simp add: chain_height_Some s(2) next_set_next chain_height_None node_height_set_next)
      also have "1 + 2 * node_height s \<le> 1 + 2 * chain_height (m_next n)"
        using node_height_le_chain [OF s(1)] by simp
      finally show "x \<le> 1 + 2 * chain_height (m_next n)" using r(2) by simp
    qed
    then show ?thesis using Some by simp
  qed
  show ?case
    using A B by (auto simp: d chain_height_Some chain_height_None split: if_splits)
qed

lemma siblings_leaf_chain:
  "s \<in> set (siblings (leaf_chain k :: 'f ASTNode option)) \<Longrightarrow> owned s = []"
  by (induction k) (auto simp: owned_def compindex_def)

lemma chain_height_leaf_chain: "chain_height (leaf_chain k :: 'f ASTNode option) = 0"
proof -
  have "node_height s = 0" if "s \<in> set (siblings (leaf_chain k))" for s :: "'f ASTNode"
    using siblings_leaf_chain [OF that] by (subst node_height.simps) simp
  then have "list_max (map node_height (siblings (leaf_chain k :: 'f ASTNode option))) \<le> 0"
    by (intro list_max_le) auto
  then show ?thesis by (simp add: chain_height_def)
qed

lemma length_siblings_leaf_chain: "length (siblings (leaf_chain k :: 'f ASTNode option)) = k"
  by (induction k) simp_all

text \<open>
  C8: the loop of the destructor releases the next siblings one per iteration, in
  order, each with its own link reset first, so that the destructor of a released
  sibling finds no chain to walk. The number of destructor activations on the stack at
  once is at most two plus twice the nesting of the nodes through owned references, in
  which sibling links do not count: for a head followed by \<open>k\<close> siblings without
  children it is at most 2, whatever \<open>k\<close> is.
\<close>

theorem sibling_chain_teardown:
  "dtor_loop (m_next n) = map (set_next None) (siblings (m_next n))
   \<and> length (dtor_loop (m_next n)) = length (siblings (m_next n))
   \<and> list_all (\<lambda>s. m_next s = None) (dtor_loop (m_next n))
   \<and> dtor_depth n \<le> 2 + 2 * chain_height (Some n)
   \<and> length (siblings (m_next (leaf_chain_head k :: 'f ASTNode))) = k
   \<and> dtor_depth (leaf_chain_head k :: 'f ASTNode) \<le> 2"
proof -
  have a: "dtor_loop (m_next n) = map (set_next None) (siblings (m_next n))"
    by (rule dtor_loop_siblings)
  have b: "list_all (\<lambda>s. m_next s = None) (dtor_loop (m_next n))"
    by (simp add: a list_all_iff next_set_next)
  have c: "dtor_depth n \<le> 2 + 2 * chain_height (Some n)"
    using dtor_depth_bound [of n] by (simp split: if_splits)
  have "chain_height (Some (leaf_chain_head k :: 'f ASTNode)) = 0"
  proof -
    have "owned (leaf_chain_head k :: 'f ASTNode) = []"
      by (simp add: leaf_chain_head_def owned_def compindex_def)
    then have "node_height (leaf_chain_head k :: 'f ASTNode) = 0"
      by (subst node_height.simps) simp
    then show ?thesis
      by (simp add: chain_height_Some leaf_chain_head_def chain_height_leaf_chain)
  qed
  then have d: "dtor_depth (leaf_chain_head k :: 'f ASTNode) \<le> 2"
    using dtor_depth_bound [of "leaf_chain_head k :: 'f ASTNode"] by (simp split: if_splits)
  have e: "length (siblings (m_next (leaf_chain_head k :: 'f ASTNode))) = k"
    by (simp add: leaf_chain_head_def length_siblings_leaf_chain)
  show ?thesis using a b c d e by simp
qed

theorem sibling_chain_teardown_witness:
  "length (siblings (m_next (leaf_chain_head 100000 :: int ASTNode))) = 100000
   \<and> length (dtor_loop (m_next (leaf_chain_head 100000 :: int ASTNode))) = 100000
   \<and> dtor_depth (leaf_chain_head 100000 :: int ASTNode) \<le> 2"
proof -
  let ?h = "leaf_chain_head 100000 :: int ASTNode"
  note t = sibling_chain_teardown [of ?h 100000, where ?'f = int]
  have a: "length (dtor_loop (m_next ?h)) = length (siblings (m_next ?h))"
    and b: "length (siblings (m_next ?h)) = 100000"
    and c: "dtor_depth ?h \<le> 2"
    using t by blast+
  show ?thesis using a b c by simp
qed

end
